theory Spec2Isabelle
  imports Main
begin

section \<open>Data model of the renovater controller\<close>

text \<open>
  The controller of \<^verbatim>\<open>controllers/git_tekton_resources_renovater.go\<close> reads the GitHub App
  installations and the Component records, keeps the installations that cover a tracked
  repository, and creates one renovate job for every group of installations.

  Go strings are byte strings: \<^typ>\<open>string\<close>. Go's \<^verbatim>\<open>int\<close> and \<^verbatim>\<open>int64\<close> are modelled by
  \<^typ>\<open>int\<close>: the only arithmetic of the file is on slice indices and on the constants
  below, far from the 64-bit range, and \<^verbatim>\<open>int(installation.ID)\<close> is the identity where
  \<^verbatim>\<open>int\<close> has 64 bits.
\<close>

text \<open>go-github's \<^verbatim>\<open>Repository\<close>, read through \<^verbatim>\<open>GetFullName\<close> and \<^verbatim>\<open>GetHTMLURL\<close>.\<close>

record repository =
  full_name :: string
  html_url :: string

text \<open>\<^verbatim>\<open>github.ApplicationInstallation\<close>, the element type of what \<^verbatim>\<open>GetInstallations\<close> returns.\<close>

record ApplicationInstallation =
  Token :: string
  ID :: int
  Repositories :: "repository list"

text \<open>The part of a Component the controller reads: \<^verbatim>\<open>Spec.Source.GitSource\<close>, a pointer.\<close>

record GitSource =
  URL :: string
  Revision :: string

record Component =
  Source_GitSource :: "GitSource option"

record renovateRepository =
  Repository :: string
  BaseBranches :: "string list"

record installationStruct =
  id_inst :: int
  token :: string
  repositories :: "renovateRepository list"

section \<open>Tracked repositories\<close>

text \<open>\<^verbatim>\<open>strings.HasSuffix\<close> and \<^verbatim>\<open>strings.TrimSuffix\<close> of Go's standard library.\<close>

definition HasSuffix :: "string \<Rightarrow> string \<Rightarrow> bool" where
  "HasSuffix s suffix \<longleftrightarrow>
     length s \<ge> length suffix \<and> drop (length s - length suffix) s = suffix"

definition TrimSuffix :: "string \<Rightarrow> string \<Rightarrow> string" where
  "TrimSuffix s suffix =
     (if HasSuffix s suffix then take (length s - length suffix) s else s)"

text \<open>
  The body of the loop over \<^verbatim>\<open>componentList.Items\<close> (lines 146 to 151): a component with
  a Git source stores its revision under its trimmed URL.
\<close>

definition component_url :: "GitSource \<Rightarrow> string" where
  "component_url g = TrimSuffix (TrimSuffix (URL g) ''.git'') ''/''"

definition add_component :: "(string \<rightharpoonup> string) \<Rightarrow> Component \<Rightarrow> (string \<rightharpoonup> string)" where
  "add_component m component =
     (case Source_GitSource component of
        None \<Rightarrow> m
      | Some g \<Rightarrow> m(component_url g \<mapsto> Revision g))"

definition componentUrlToBranchMap :: "Component list \<Rightarrow> (string \<rightharpoonup> string)" where
  "componentUrlToBranchMap items = foldl add_component Map.empty items"

section \<open>Matching installations with components\<close>

text \<open>The inner loop of lines 157 to 171, one repository of an installation at a time.\<close>

definition add_repository ::
  "(string \<rightharpoonup> string) \<Rightarrow> renovateRepository list \<Rightarrow> repository \<Rightarrow> renovateRepository list"
where
  "add_repository m repos r =
     (case m (html_url r) of
        None \<Rightarrow> repos
      | Some branch \<Rightarrow>
          (let baseBranches = (if branch \<noteq> [] then [] @ [branch] else [])
           in repos @ [\<lparr>Repository = full_name r, BaseBranches = baseBranches\<rparr>]))"

definition match_repositories ::
  "(string \<rightharpoonup> string) \<Rightarrow> repository list \<Rightarrow> renovateRepository list"
where
  "match_repositories m rs = foldl (add_repository m) [] rs"

text \<open>The outer loop of lines 155 to 182.\<close>

definition add_installation ::
  "(string \<rightharpoonup> string) \<Rightarrow> installationStruct list \<Rightarrow> ApplicationInstallation
     \<Rightarrow> installationStruct list"
where
  "add_installation m acc inst =
     (let repos = match_repositories m (Repositories inst)
      in if length repos = 0 then acc
         else acc @ [\<lparr>id_inst = ID inst, token = Token inst, repositories = repos\<rparr>])"

definition match_installations ::
  "(string \<rightharpoonup> string) \<Rightarrow> ApplicationInstallation list \<Rightarrow> installationStruct list"
where
  "match_installations m insts = foldl (add_installation m) [] insts"

section \<open>Numbers as decimal strings\<close>

text \<open>
  \<^verbatim>\<open>fmt.Sprint\<close> and the verb \<^verbatim>\<open>%d\<close> print an \<^verbatim>\<open>int\<close> in decimal, with a minus sign when it
  is negative.
\<close>

definition digit_char :: "nat \<Rightarrow> char" where
  "digit_char d = ''0123456789'' ! d"

fun show_nat :: "nat \<Rightarrow> string" where
  "show_nat n = (if n < 10 then [digit_char n] else show_nat (n div 10) @ [digit_char (n mod 10)])"

declare show_nat.simps [simp del]

definition show_int :: "int \<Rightarrow> string" where
  "show_int i = (if i < 0 then CHR ''-'' # show_nat (nat (- i)) else show_nat (nat i))"

text \<open>
  Reading decimal strings: the digits \<^verbatim>\<open>0\<close> to \<^verbatim>\<open>9\<close> are the bytes 48 to 57.
\<close>

definition is_digit :: "char \<Rightarrow> bool" where
  "is_digit c \<longleftrightarrow> 48 \<le> (of_char c :: nat) \<and> (of_char c :: nat) \<le> 57"

definition digit_val :: "char \<Rightarrow> nat" where
  "digit_val c = of_char c - 48"

definition digits_value :: "string \<Rightarrow> nat" where
  "digits_value s = foldl (\<lambda>n c. 10 * n + digit_val c) 0 s"

text \<open>
  A Go \<^verbatim>\<open>error\<close>: the API server's not-found status, the two errors of \<^verbatim>\<open>strconv\<close>, and any
  other failure with its message.
\<close>

datatype error = NotFound string | ErrSyntax | ErrRange | Failure string

text \<open>\<^verbatim>\<open>errors.IsNotFound\<close> of the Kubernetes API machinery.\<close>

fun IsNotFound :: "error \<Rightarrow> bool" where
  "IsNotFound (NotFound _) = True"
| "IsNotFound _ = False"

text \<open>
  The loop of \<^verbatim>\<open>strconv.ParseUint(s, 10, 64)\<close> over the bytes of the string, \<open>n\<close> being the value
  read so far: a byte that is not a digit is a syntax error, and a digit that takes the
  value beyond 64 bits is a range error at once, whatever follows it.
\<close>

fun parse_digits :: "nat \<Rightarrow> string \<Rightarrow> nat \<times> error option" where
  "parse_digits n [] = (n, None)"
| "parse_digits n (c # cs) =
     (if \<not> is_digit c then (0, Some ErrSyntax)
      else if 10 * n + digit_val c > 2 ^ 64 - 1 then (2 ^ 64 - 1, Some ErrRange)
      else parse_digits (10 * n + digit_val c) cs)"

text \<open>
  \<^verbatim>\<open>strconv.ParseInt(s, 10, 64)\<close>: an optional sign and then decimal digits only. Like the Go
  function it returns a value together with the error: 0 with a syntax error, the nearest
  bound with a range error.
\<close>

definition ParseInt :: "string \<Rightarrow> int \<times> error option" where
  "ParseInt s =
     (if s = [] then (0, Some ErrSyntax)
      else
        (let neg = (hd s = CHR ''-'');
             s' = (if hd s = CHR ''+'' \<or> hd s = CHR ''-'' then tl s else s)
         in if s' = [] then (0, Some ErrSyntax)
            else
              (case parse_digits 0 s' of
                 (un, Some ErrSyntax) \<Rightarrow> (0, Some ErrSyntax)
               | (un, err) \<Rightarrow>
                   if \<not> neg \<and> int un \<ge> 2 ^ 63 then (2 ^ 63 - 1, Some ErrRange)
                   else if neg \<and> int un > 2 ^ 63 then (- (2 ^ 63), Some ErrRange)
                   else (if neg then - int un else int un, None))))"

text \<open>\<^verbatim>\<open>strconv.Atoi\<close>, where \<^verbatim>\<open>int\<close> has 64 bits.\<close>

definition Atoi :: "string \<Rightarrow> int \<times> error option" where
  "Atoi s = ParseInt s"

section \<open>Constants of the controller\<close>

text \<open>A \<^verbatim>\<open>time.Duration\<close> is a number of nanoseconds.\<close>

definition Second :: int where
  "Second = 1000000000"

definition Hour :: int where
  "Hour = 3600 * Second"

definition TimeToLiveOfJob :: int where
  "TimeToLiveOfJob = 24 * Hour"

definition NextReconcile :: int where
  "NextReconcile = 10 * Hour"

definition InstallationsPerJob :: int where
  "InstallationsPerJob = 20"

definition InstallationsPerJobEnvName :: string where
  "InstallationsPerJobEnvName = ''RENOVATE_INSTALLATIONS_PER_JOB''"

definition RenovateImageEnvName :: string where
  "RenovateImageEnvName = ''RENOVATE_IMAGE''"

definition DefaultRenovateImageUrl :: string where
  "DefaultRenovateImageUrl = ''quay.io/redhat-appstudio/renovate:34.154-slim''"

definition DefaultRenovateMatchPattern :: string where
  "DefaultRenovateMatchPattern = ''^quay.io/redhat-appstudio-tekton-catalog/''"

definition RenovateMatchPatternEnvName :: string where
  "RenovateMatchPatternEnvName = ''RENOVATE_PATTERN''"

section \<open>Installations per job\<close>

text \<open>
  The regular expression \<^verbatim>\<open>^\d{1,2}$\<close> of line 187: Go's \<^verbatim>\<open>\d\<close> is an ASCII digit, and
  without the multi-line flag \<^verbatim>\<open>^\<close> and \<^verbatim>\<open>$\<close> are the two ends of the text.
\<close>

definition matches_one_or_two_digits :: "string \<Rightarrow> bool" where
  "matches_one_or_two_digits s \<longleftrightarrow>
     (length s = 1 \<or> length s = 2) \<and> list_all is_digit s"

text \<open>Lines 185 to 194, from the value of the environment variable.\<close>

definition installationPerJob :: "string \<Rightarrow> int" where
  "installationPerJob installationPerJobStr =
     (if matches_one_or_two_digits installationPerJobStr then
        (let installationPerJobInt = fst (Atoi installationPerJobStr)
         in if installationPerJobInt = 0 then InstallationsPerJob else installationPerJobInt)
      else InstallationsPerJob)"

section \<open>The loop over the jobs\<close>

text \<open>
  Lines 195 to 205: \<^verbatim>\<open>for i := 0; i < len(xs); i += n\<close>, whose body hands the slice
  \<^verbatim>\<open>xs[i:end]\<close> to \<open>body\<close>. A loop that never ends has the value \<open>None\<close>.
\<close>

partial_function (option) job_loop ::
  "('s \<Rightarrow> 'a list \<Rightarrow> 's) \<Rightarrow> 'a list \<Rightarrow> nat \<Rightarrow> nat \<Rightarrow> 's \<Rightarrow> 's option"
where
  "job_loop body xs n i s =
     (if i < length xs then
        job_loop body xs n (i + n)
          (body s (take ((if i + n > length xs then length xs else i + n) - i) (drop i xs)))
      else Some s)"

declare job_loop.simps [code]

text \<open>The slices the loop hands out, in the order of the iterations.\<close>

definition job_slices :: "'a list \<Rightarrow> nat \<Rightarrow> 'a list list option" where
  "job_slices xs n = job_loop (\<lambda>acc slice. acc @ [slice]) xs n 0 []"

section \<open>Kubernetes objects\<close>

text \<open>
  The objects the controller builds, with the fields its literals set. A field a literal
  leaves out holds Go's zero value; of those only \<^verbatim>\<open>VolumeMount.ReadOnly\<close> is kept, since a
  property below reads it. An owner reference is kept as the owner's name.
\<close>

record ObjectMeta =
  Name :: string
  Namespace :: string
  OwnerReferences :: "string list"

record Secret =
  Secret_ObjectMeta :: ObjectMeta
  StringData :: "string \<rightharpoonup> string"

record ConfigMap =
  ConfigMap_ObjectMeta :: ObjectMeta
  Data :: "string \<rightharpoonup> string"

record Volume =
  Volume_Name :: string
  VolumeSource_ConfigMap :: "string option"

record EnvFromSource =
  Prefix :: string
  SecretRef :: "string option"

record VolumeMount =
  VolumeMount_Name :: string
  MountPath :: string
  ReadOnly :: bool

datatype SeccompProfileType =
  SeccompProfileTypeUnconfined | SeccompProfileTypeRuntimeDefault | SeccompProfileTypeLocalhost

record SecurityContext =
  Capabilities_Drop :: "string list"
  RunAsNonRoot :: "bool option"
  AllowPrivilegeEscalation :: "bool option"
  SeccompProfile_Type :: "SeccompProfileType option"

record Container =
  Container_Name :: string
  Container_Image :: string
  EnvFrom :: "EnvFromSource list"
  Command :: "string list"
  VolumeMounts :: "VolumeMount list"
  Container_SecurityContext :: "SecurityContext option"

datatype RestartPolicy = RestartPolicyAlways | RestartPolicyOnFailure | RestartPolicyNever

record PodSpec =
  Volumes :: "Volume list"
  Containers :: "Container list"
  PodSpec_RestartPolicy :: RestartPolicy

record JobSpec =
  BackoffLimit :: "int option"
  TTLSecondsAfterFinished :: "int option"
  Template_Spec :: PodSpec

record Job =
  Job_ObjectMeta :: ObjectMeta
  Spec :: JobSpec

datatype k8s_object = SecretObject Secret | ConfigMapObject ConfigMap | JobObject Job

section \<open>The environment of the controller\<close>

text \<open>
  What the controller does to the world, in order: the calls of the cluster client, of the
  installation directory, of the event recorder and of the logger.
\<close>

datatype event =
    ClientGet string string
  | RecorderEvent string string error
  | LogError error string
  | LogInfo string
  | GetInstallationsCall int string
  | ClientList
  | ClientCreate k8s_object
  | ClientUpdate k8s_object

text \<open>
  What the world answers. The constants of the first four fields are declared in other
  files (\<^verbatim>\<open>buildServiceNamespaceName\<close>) and in the application service's \<^verbatim>\<open>gitops\<close> packages;
  \<^verbatim>\<open>IsPaCApplicationConfigured\<close>, \<^verbatim>\<open>GetInstallations\<close>, \<^verbatim>\<open>getRandomString\<close> and
  \<^verbatim>\<open>controllerutil.SetOwnerReference\<close> are functions of other files and packages, and
  \<open>json_string\<close> is the way \<^verbatim>\<open>encoding/json\<close> writes a Go string. The answers of the cluster
  client to a write, the clock and the random string may depend on everything done so far.
\<close>

record env =
  buildServiceNamespaceName :: string
  PipelinesAsCodeSecretName :: string
  PipelinesAsCode_githubAppIdKey :: string
  PipelinesAsCode_githubPrivateKey :: string
  IsPaCApplicationConfigured :: "string \<Rightarrow> (string \<rightharpoonup> string) \<Rightarrow> bool"
  GetInstallations :: "int \<Rightarrow> string \<Rightarrow> error + (ApplicationInstallation list \<times> string)"
  client_Get :: "string \<Rightarrow> string \<Rightarrow> error + (string \<rightharpoonup> string)"
  client_List :: "error + Component list"
  client_Create :: "event list \<Rightarrow> k8s_object \<Rightarrow> error option"
  client_Update :: "event list \<Rightarrow> k8s_object \<Rightarrow> error option"
  SetOwnerReference :: "Job \<Rightarrow> ObjectMeta \<Rightarrow> error + ObjectMeta"
  Getenv :: "string \<Rightarrow> string"
  json_string :: "string \<Rightarrow> string"
  time_Now_Unix :: "event list \<Rightarrow> int"
  getRandomString :: "event list \<Rightarrow> nat \<Rightarrow> string"

definition Create :: "env \<Rightarrow> k8s_object \<Rightarrow> event list \<Rightarrow> error option \<times> event list" where
  "Create e obj tr = (client_Create e tr obj, tr @ [ClientCreate obj])"

definition Update :: "env \<Rightarrow> k8s_object \<Rightarrow> event list \<Rightarrow> error option \<times> event list" where
  "Update e obj tr = (client_Update e tr obj, tr @ [ClientUpdate obj])"

section \<open>The generated configuration\<close>

text \<open>\<^verbatim>\<open>strings.Join\<close>.\<close>

fun Join :: "string list \<Rightarrow> string \<Rightarrow> string" where
  "Join [] sep = []"
| "Join [x] sep = x"
| "Join (x # y # ys) sep = x @ sep @ Join (y # ys) sep"

text \<open>
  \<^verbatim>\<open>json.Marshal\<close> on a slice of \<^verbatim>\<open>renovateRepository\<close>: an array of objects with the key
  \<^verbatim>\<open>repository\<close> and, unless the slice of base branches is empty (\<^verbatim>\<open>omitempty\<close>), the key
  \<^verbatim>\<open>baseBranches\<close>. The slices of this file are never nil, so an empty one is \<^verbatim>\<open>[]\<close>.
\<close>

definition Marshal_strings :: "env \<Rightarrow> string list \<Rightarrow> string" where
  "Marshal_strings e xs = ''['' @ Join (map (json_string e) xs) '','' @ '']''"

definition Marshal_renovateRepository :: "env \<Rightarrow> renovateRepository \<Rightarrow> string" where
  "Marshal_renovateRepository e r =
     ''{\"repository\":'' @ json_string e (Repository r)
     @ (if length (BaseBranches r) = 0 then []
        else '',\"baseBranches\":'' @ Marshal_strings e (BaseBranches r))
     @ ''}''"

definition Marshal_repositories :: "env \<Rightarrow> renovateRepository list \<Rightarrow> string" where
  "Marshal_repositories e rs = ''['' @ Join (map (Marshal_renovateRepository e) rs) '','' @ '']''"

text \<open>
  The template of lines 212 to 240 after \<^verbatim>\<open>fmt.Sprintf\<close> has put its arguments in the place of
  the six \<^verbatim>\<open>%s\<close>: its lines, each after its tabs. The raw string starts with a line break
  and ends with a tab.
\<close>

definition tabs :: "nat \<Rightarrow> string \<Rightarrow> string" where
  "tabs k s = replicate k (CHR 0x09) @ s"

definition template_lines :: "string \<Rightarrow> string \<Rightarrow> string \<Rightarrow> string list" where
  "template_lines slug repositoriesData renovatePattern =
     [[],
      tabs 1 ''module.exports = {'',
      tabs 2 ''platform: \"github\",'',
      tabs 2 (''username: \"'' @ slug @ ''[bot]\",''),
      tabs 2 (''gitAuthor:\"'' @ slug @ '' <123456+'' @ slug @ ''[bot]@users.noreply.github.com>\",''),
      tabs 2 ''onboarding: false,'',
      tabs 2 ''requireConfig: \"ignored\",'',
      tabs 2 ''enabledManagers: [\"tekton\"],'',
      tabs 2 (''repositories: '' @ repositoriesData @ '',''),
      tabs 2 ''tekton: {'',
      tabs 3 (''fileMatch: [\"'' @ [CHR 0x5C, CHR 0x5C] @ ''.yaml$\", \"''
              @ [CHR 0x5C, CHR 0x5C] @ ''.yml$\"],''),
      tabs 3 ''includePaths: [\".tekton/**\"],'',
      tabs 3 ''packageRules: ['',
      tabs 3 ''  {'',
      tabs 4 ''matchPackagePatterns: [\"*\"],'',
      tabs 4 ''enabled: false'',
      tabs 3 ''  },'',
      tabs 3 ''  {'',
      tabs 4 (''matchPackagePatterns: [\"'' @ renovatePattern @ ''\"],''),
      tabs 4 (''matchDepPatterns: [\"'' @ renovatePattern @ ''\"],''),
      tabs 4 ''groupName: \"tekton references\",'',
      tabs 4 ''enabled: true'',
      tabs 3 ''  }'',
      tabs 3 '']'',
      tabs 2 ''},'',
      tabs 2 ''includeForks: true,'',
      tabs 2 ''dependencyDashboard: false'',
      tabs 1 ''}'',
      tabs 1 []]"

definition generateConfigJS :: "env \<Rightarrow> string \<Rightarrow> renovateRepository list \<Rightarrow> string" where
  "generateConfigJS e slug repos =
     (let repositoriesData = Marshal_repositories e repos;
          renovatePattern = Getenv e RenovateMatchPatternEnvName;
          renovatePattern =
            (if renovatePattern = [] then DefaultRenovateMatchPattern else renovatePattern)
      in Join (template_lines slug repositoriesData renovatePattern) [CHR 0x0A])"

section \<open>Creating a job\<close>

text \<open>The body of the loop of lines 257 to 263.\<close>

definition add_job_installation ::
  "env \<Rightarrow> string \<Rightarrow> (string \<rightharpoonup> string) \<times> (string \<rightharpoonup> string) \<times> string list
     \<Rightarrow> installationStruct \<Rightarrow> (string \<rightharpoonup> string) \<times> (string \<rightharpoonup> string) \<times> string list"
where
  "add_job_installation e slug acc installation =
     (case acc of (secretTokens, configmaps, renovateCmds) \<Rightarrow>
        (secretTokens(show_int (id_inst installation) \<mapsto> token installation),
         configmaps(show_int (id_inst installation) @ ''.js''
                      \<mapsto> generateConfigJS e slug (repositories installation)),
         renovateCmds
         @ [''RENOVATE_TOKEN=$TOKEN_'' @ show_int (id_inst installation)
            @ '' RENOVATE_CONFIG_FILE=/configs/'' @ show_int (id_inst installation)
            @ ''.js renovate'']))"

text \<open>
  The job of lines 281 to 344. \<^verbatim>\<open>TimeToLiveOfJob.Seconds()\<close> is the floating-point number
  86400, which \<^verbatim>\<open>int32\<close> keeps.
\<close>

definition renovate_job :: "env \<Rightarrow> string \<Rightarrow> string list \<Rightarrow> Job" where
  "renovate_job e name renovateCmds =
     (let trueBool = True;
          falseBool = False;
          backoffLimit = 1;
          timeToLive = TimeToLiveOfJob div Second;
          renovateImageUrl = Getenv e RenovateImageEnvName;
          renovateImageUrl =
            (if renovateImageUrl = [] then DefaultRenovateImageUrl else renovateImageUrl)
      in \<lparr>Job_ObjectMeta =
            \<lparr>Name = name, Namespace = buildServiceNamespaceName e, OwnerReferences = []\<rparr>,
          Spec =
            \<lparr>BackoffLimit = Some backoffLimit,
             TTLSecondsAfterFinished = Some timeToLive,
             Template_Spec =
               \<lparr>Volumes = [\<lparr>Volume_Name = name, VolumeSource_ConfigMap = Some name\<rparr>],
                Containers =
                  [\<lparr>Container_Name = ''renovate'',
                    Container_Image = renovateImageUrl,
                    EnvFrom = [\<lparr>Prefix = ''TOKEN_'', SecretRef = Some name\<rparr>],
                    Command = [''bash'', ''-c'', Join renovateCmds ''; ''],
                    VolumeMounts =
                      [\<lparr>VolumeMount_Name = name, MountPath = ''/configs'', ReadOnly = False\<rparr>],
                    Container_SecurityContext =
                      Some \<lparr>Capabilities_Drop = [''ALL''],
                            RunAsNonRoot = Some trueBool,
                            AllowPrivilegeEscalation = Some falseBool,
                            SeccompProfile_Type = Some SeccompProfileTypeRuntimeDefault\<rparr>\<rparr>],
                PodSpec_RestartPolicy = RestartPolicyNever\<rparr>\<rparr>\<rparr>)"

text \<open>
  Lines 346 to 370: the three objects are created, then the job is made the owner of the
  secret and of the config map. The first error ends the function.
\<close>

definition create_objects ::
  "env \<Rightarrow> Secret \<Rightarrow> ConfigMap \<Rightarrow> Job \<Rightarrow> event list \<Rightarrow> error option \<times> event list"
where
  "create_objects e secret configMap job tr =
     (case Create e (SecretObject secret) tr of
        (Some err, tr1) \<Rightarrow> (Some err, tr1)
      | (None, tr1) \<Rightarrow>
     (case Create e (ConfigMapObject configMap) tr1 of
        (Some err, tr2) \<Rightarrow> (Some err, tr2)
      | (None, tr2) \<Rightarrow>
     (case Create e (JobObject job) tr2 of
        (Some err, tr3) \<Rightarrow> (Some err, tr3)
      | (None, tr3) \<Rightarrow>
     (let tr4 = tr3 @ [LogInfo (''Job '' @ Name (Job_ObjectMeta job) @ '' triggered'')]
      in case SetOwnerReference e job (Secret_ObjectMeta secret) of
           Inl err \<Rightarrow> (Some err, tr4)
         | Inr meta \<Rightarrow>
     (case Update e (SecretObject (secret\<lparr>Secret_ObjectMeta := meta\<rparr>)) tr4 of
        (Some err, tr5) \<Rightarrow> (Some err, tr5)
      | (None, tr5) \<Rightarrow>
     (case SetOwnerReference e job (ConfigMap_ObjectMeta configMap) of
        Inl err \<Rightarrow> (Some err, tr5)
      | Inr meta \<Rightarrow>
     (case Update e (ConfigMapObject (configMap\<lparr>ConfigMap_ObjectMeta := meta\<rparr>)) tr5 of
        (Some err, tr6) \<Rightarrow> (Some err, tr6)
      | (None, tr6) \<Rightarrow> (None, tr6))))))))"

text \<open>\<^verbatim>\<open>CreateRenovaterJob\<close>, lines 248 to 371.\<close>

definition CreateRenovaterJob ::
  "env \<Rightarrow> installationStruct list \<Rightarrow> string \<Rightarrow> event list \<Rightarrow> error option \<times> event list"
where
  "CreateRenovaterJob e installations slug tr =
     (if length installations = 0 then (None, tr)
      else
        (let timestamp = time_Now_Unix e tr;
             name = ''renovate-job-'' @ show_int timestamp @ ''-'' @ getRandomString e tr 5
         in case foldl (add_job_installation e slug) (Map.empty, Map.empty, []) installations of
              (secretTokens, configmaps, renovateCmds) \<Rightarrow>
                if length renovateCmds = 0 then (None, tr)
                else
                  (let secret =
                         \<lparr>Secret_ObjectMeta =
                            \<lparr>Name = name, Namespace = buildServiceNamespaceName e,
                             OwnerReferences = []\<rparr>,
                          StringData = secretTokens\<rparr>;
                       configMap =
                         \<lparr>ConfigMap_ObjectMeta =
                            \<lparr>Name = name, Namespace = buildServiceNamespaceName e,
                             OwnerReferences = []\<rparr>,
                          Data = configmaps\<rparr>;
                       job = renovate_job e name renovateCmds
                   in create_objects e secret configMap job tr)))"

section \<open>Reconciliation\<close>

record Result =
  Requeue :: bool
  RequeueAfter :: int

text \<open>Reading a key of \<^verbatim>\<open>pacSecret.Data\<close>: a key that is not there gives the empty slice.\<close>

definition secret_value :: "(string \<rightharpoonup> string) \<Rightarrow> string \<Rightarrow> string" where
  "secret_value d k = (case d k of None \<Rightarrow> [] | Some v \<Rightarrow> v)"

text \<open>The body of the loop of lines 195 to 205: an error of a job is logged.\<close>

definition job_body :: "env \<Rightarrow> string \<Rightarrow> event list \<Rightarrow> installationStruct list \<Rightarrow> event list" where
  "job_body e slug tr installations =
     (case CreateRenovaterJob e installations slug tr of
        (Some err, tr') \<Rightarrow> tr' @ [LogError err ''failed to create a job'']
      | (None, tr') \<Rightarrow> tr')"

text \<open>
  Lines 120 to 207 of \<^verbatim>\<open>Reconcile\<close>, where \<open>d\<close> is \<^verbatim>\<open>pacSecret.Data\<close> as the read of the secret
  left it.
\<close>

definition Reconcile_with_secret ::
  "env \<Rightarrow> (string \<rightharpoonup> string) \<Rightarrow> event list \<Rightarrow> ((Result \<times> error option) \<times> event list) option"
where
  "Reconcile_with_secret e d tr =
     (let isApp = IsPaCApplicationConfigured e ''github'' d
      in if \<not> isApp then
           Some ((\<lparr>Requeue = False, RequeueAfter = 0\<rparr>, None),
                 tr @ [LogInfo ''GitHub App is not set''])
         else
           (let githubAppIdStr = secret_value d (PipelinesAsCode_githubAppIdKey e)
            in case ParseInt githubAppIdStr of
                 (githubAppId, Some err) \<Rightarrow>
                   Some ((\<lparr>Requeue = False, RequeueAfter = 0\<rparr>, None),
                         tr @ [LogError err ''failed to convert %s to int: %w''])
               | (githubAppId, None) \<Rightarrow>
           (let privateKey = secret_value d (PipelinesAsCode_githubPrivateKey e);
                tr1 = tr @ [GetInstallationsCall githubAppId privateKey]
            in case GetInstallations e githubAppId privateKey of
                 Inl err \<Rightarrow> Some ((\<lparr>Requeue = False, RequeueAfter = 0\<rparr>, Some err), tr1)
               | Inr (githubAppInstallations, slug) \<Rightarrow>
           (let tr2 = tr1 @ [ClientList]
            in case client_List e of
                 Inl err \<Rightarrow>
                   Some ((\<lparr>Requeue = False, RequeueAfter = 0\<rparr>, Some err),
                         tr2 @ [LogError err ''failed to list Components''])
               | Inr items \<Rightarrow>
           (let installationsToUpdate =
                  match_installations (componentUrlToBranchMap items) githubAppInstallations;
                installationPerJobInt =
                  installationPerJob (Getenv e InstallationsPerJobEnvName)
            in case job_loop (job_body e slug) installationsToUpdate
                      (nat installationPerJobInt) 0 tr2 of
                 None \<Rightarrow> None
               | Some tr3 \<Rightarrow>
                   Some ((\<lparr>Requeue = False, RequeueAfter = NextReconcile\<rparr>, None), tr3))))))"

text \<open>\<^verbatim>\<open>Reconcile\<close>, lines 108 to 208. When the read of the secret fails the secret stays empty.\<close>

definition Reconcile :: "env \<Rightarrow> event list \<Rightarrow> ((Result \<times> error option) \<times> event list) option" where
  "Reconcile e tr =
     (let tr1 = tr @ [ClientGet (buildServiceNamespaceName e) (PipelinesAsCodeSecretName e)]
      in case client_Get e (buildServiceNamespaceName e) (PipelinesAsCodeSecretName e) of
           Inl err \<Rightarrow>
             if \<not> IsNotFound err then
               Some ((\<lparr>Requeue = False, RequeueAfter = 0\<rparr>, None),
                     tr1 @ [RecorderEvent ''Warning'' ''ErrorReadingPaCSecret'' err,
                            LogError err
                              ''failed to get Pipelines as Code secret in %s namespace: %w''])
             else Reconcile_with_secret e Map.empty tr1
         | Inr d \<Rightarrow> Reconcile_with_secret e d tr1)"

section \<open>An environment for the examples\<close>

text \<open>
  Three installations and four components, a directory and a cluster that answer every
  call, two installations per job. This string encoder writes a string between quotes, as
  \<^verbatim>\<open>encoding/json\<close> does for the ASCII names of these examples.
\<close>

definition test_installations :: "ApplicationInstallation list" where
  "test_installations =
     [\<lparr>Token = ''t1'', ID = 1,
        Repositories = [\<lparr>full_name = ''o/a'', html_url = ''https://github.com/o/a''\<rparr>,
                        \<lparr>full_name = ''o/b'', html_url = ''https://github.com/o/b''\<rparr>]\<rparr>,
      \<lparr>Token = ''t2'', ID = 2,
        Repositories = [\<lparr>full_name = ''o/c'', html_url = ''https://github.com/o/c''\<rparr>]\<rparr>,
      \<lparr>Token = ''t3'', ID = 3,
        Repositories = [\<lparr>full_name = ''o/d'', html_url = ''https://github.com/o/d''\<rparr>,
                        \<lparr>full_name = ''o/e'', html_url = ''https://github.com/o/e''\<rparr>]\<rparr>]"

definition test_components :: "Component list" where
  "test_components =
     [\<lparr>Source_GitSource = Some \<lparr>URL = ''https://github.com/o/a.git'', Revision = ''main''\<rparr>\<rparr>,
      \<lparr>Source_GitSource = None\<rparr>,
      \<lparr>Source_GitSource = Some \<lparr>URL = ''https://github.com/o/c/'', Revision = []\<rparr>\<rparr>,
      \<lparr>Source_GitSource = Some \<lparr>URL = ''https://github.com/o/e'', Revision = ''dev''\<rparr>\<rparr>]"

definition test_env :: env where
  "test_env =
     \<lparr>buildServiceNamespaceName = ''build-service'',
      PipelinesAsCodeSecretName = ''pipelines-as-code-secret'',
      PipelinesAsCode_githubAppIdKey = ''github-application-id'',
      PipelinesAsCode_githubPrivateKey = ''github-private-key'',
      IsPaCApplicationConfigured = (\<lambda>provider d. d ''github-application-id'' \<noteq> None),
      GetInstallations = (\<lambda>appId key. Inr (test_installations, ''appstudio'')),
      client_Get =
        (\<lambda>ns name. Inr [''github-application-id'' \<mapsto> ''42'', ''github-private-key'' \<mapsto> ''key'']),
      client_List = Inr test_components,
      client_Create = (\<lambda>tr obj. None),
      client_Update = (\<lambda>tr obj. None),
      SetOwnerReference =
        (\<lambda>job meta. Inr (meta\<lparr>OwnerReferences := [Name (Job_ObjectMeta job)]\<rparr>)),
      Getenv = (\<lambda>name. if name = ''RENOVATE_INSTALLATIONS_PER_JOB'' then ''2'' else []),
      json_string = (\<lambda>s. [CHR 0x22] @ s @ [CHR 0x22]),
      time_Now_Unix = (\<lambda>tr. 1700000000),
      getRandomString = (\<lambda>tr n. ''abcde'')\<rparr>"

section \<open>Properties of the matcher\<close>

lemma foldl_add_repository:
  "foldl (add_repository m) acc rs =
     acc @ map (\<lambda>r. \<lparr>Repository = full_name r,
                      BaseBranches = (if the (m (html_url r)) \<noteq> [] then [the (m (html_url r))] else [])\<rparr>)
             (filter (\<lambda>r. m (html_url r) \<noteq> None) rs)"
  by (induction rs arbitrary: acc) (auto simp: add_repository_def split: option.splits)

lemma match_repositories_eq:
  "match_repositories m rs =
     map (\<lambda>r. \<lparr>Repository = full_name r,
                BaseBranches = (if the (m (html_url r)) \<noteq> [] then [the (m (html_url r))] else [])\<rparr>)
       (filter (\<lambda>r. m (html_url r) \<noteq> None) rs)"
  by (simp add: match_repositories_def foldl_add_repository)

lemma match_repositories_empty_iff:
  "match_repositories m rs = [] \<longleftrightarrow> (\<forall>r \<in> set rs. m (html_url r) = None)"
  by (simp add: match_repositories_eq filter_empty_conv)

lemma foldl_add_installation:
  "foldl (add_installation m) acc insts =
     acc @ map (\<lambda>i. \<lparr>id_inst = ID i, token = Token i,
                      repositories = match_repositories m (Repositories i)\<rparr>)
             (filter (\<lambda>i. match_repositories m (Repositories i) \<noteq> []) insts)"
  by (induction insts arbitrary: acc) (auto simp: add_installation_def Let_def)

text \<open>
  C1. The matcher keeps, in the directory's order, exactly the installations with at least
  one repository whose HTML URL is a key of the tracked map; an installation none of whose
  repositories is tracked is not in the output, no kept installation has an empty
  repository list, and the repositories of a kept installation are its tracked
  repositories in the directory's order.
\<close>

theorem matcher_keeps_tracked_installations:
  "match_installations m insts =
     map (\<lambda>i. \<lparr>id_inst = ID i, token = Token i,
                repositories = match_repositories m (Repositories i)\<rparr>)
       (filter (\<lambda>i. \<exists>r \<in> set (Repositories i). html_url r \<in> dom m) insts)
   \<and> map Repository (match_repositories m rs) =
       map full_name (filter (\<lambda>r. html_url r \<in> dom m) rs)
   \<and> (\<forall>x \<in> set (match_installations m insts). repositories x \<noteq> [])"
proof (intro conjI)
  have same: "(\<lambda>i. match_repositories m (Repositories i) \<noteq> []) =
      (\<lambda>i. \<exists>r \<in> set (Repositories i). html_url r \<in> dom m)"
    by (auto simp: match_repositories_empty_iff dom_def)
  show "match_installations m insts =
     map (\<lambda>i. \<lparr>id_inst = ID i, token = Token i,
                repositories = match_repositories m (Repositories i)\<rparr>)
       (filter (\<lambda>i. \<exists>r \<in> set (Repositories i). html_url r \<in> dom m) insts)"
    unfolding match_installations_def foldl_add_installation same by simp
  show "map Repository (match_repositories m rs) =
       map full_name (filter (\<lambda>r. html_url r \<in> dom m) rs)"
    by (simp add: match_repositories_eq dom_def comp_def)
  show "\<forall>x \<in> set (match_installations m insts). repositories x \<noteq> []"
    by (auto simp: match_installations_def foldl_add_installation)
qed

theorem matcher_keeps_tracked_installations_witness:
  "match_installations [''https://github.com/o/a'' \<mapsto> ''main'']
     [\<lparr>Token = ''t1'', ID = 1,
        Repositories = [\<lparr>full_name = ''o/b'', html_url = ''https://github.com/o/b''\<rparr>,
                        \<lparr>full_name = ''o/a'', html_url = ''https://github.com/o/a''\<rparr>]\<rparr>,
      \<lparr>Token = ''t2'', ID = 2,
        Repositories = [\<lparr>full_name = ''o/c'', html_url = ''https://github.com/o/c''\<rparr>]\<rparr>]
   = [\<lparr>id_inst = 1, token = ''t1'',
       repositories = [\<lparr>Repository = ''o/a'', BaseBranches = [''main'']\<rparr>]\<rparr>]"
proof -
  let ?m = "[''https://github.com/o/a'' \<mapsto> ''main'']"
  let ?r1 = "[\<lparr>full_name = ''o/b'', html_url = ''https://github.com/o/b''\<rparr>,
              \<lparr>full_name = ''o/a'', html_url = ''https://github.com/o/a''\<rparr>]"
  let ?r2 = "[\<lparr>full_name = ''o/c'', html_url = ''https://github.com/o/c''\<rparr>]"
  let ?insts = "[\<lparr>Token = ''t1'', ID = 1, Repositories = ?r1\<rparr>,
                 \<lparr>Token = ''t2'', ID = 2, Repositories = ?r2\<rparr>]"
  have "match_installations ?m ?insts =
     map (\<lambda>i. \<lparr>id_inst = ID i, token = Token i,
                repositories = match_repositories ?m (Repositories i)\<rparr>)
       (filter (\<lambda>i. \<exists>r \<in> set (Repositories i). html_url r \<in> dom ?m) ?insts)"
    using matcher_keeps_tracked_installations [of ?m ?insts ?r1] by blast
  then show ?thesis
    by (simp add: match_repositories_def add_repository_def)
qed

section \<open>Properties of the loop over the jobs\<close>

text \<open>
  With a positive step the loop ends. The slices it hands out are the same whatever the
  body does with them, so the loop is a fold of the body over these slices.
\<close>

lemma job_loop_slices:
  assumes "0 < n"
  shows "\<exists>bs. job_loop (\<lambda>acc slice. acc @ [slice]) xs n i acc = Some (acc @ bs)
            \<and> job_loop body xs n i s = Some (foldl body s bs)
            \<and> concat bs = drop i xs
            \<and> list_all (\<lambda>b. b \<noteq> [] \<and> length b \<le> n) bs
            \<and> list_all (\<lambda>b. length b = n) (butlast bs)"
proof (induction "length xs - i" arbitrary: i acc s rule: less_induct)
  case less
  show ?case
  proof (cases "i < length xs")
    case False
    have "job_loop (\<lambda>acc slice. acc @ [slice]) xs n i acc = Some (acc @ [])"
      using False by (subst job_loop.simps) simp
    moreover have "job_loop body xs n i s = Some (foldl body s [])"
      using False by (subst job_loop.simps) simp
    ultimately show ?thesis using False by (intro exI [of _ "[]"]) simp
  next
    case True
    define sl where
      "sl = take ((if i + n > length xs then length xs else i + n) - i) (drop i xs)"
    have lt: "length xs - (i + n) < length xs - i"
      using True assms by arith
    from less [OF lt, of "acc @ [sl]" "body s sl"] obtain bs where
      a: "job_loop (\<lambda>acc slice. acc @ [slice]) xs n (i + n) (acc @ [sl]) = Some ((acc @ [sl]) @ bs)"
      and b: "job_loop body xs n (i + n) (body s sl) = Some (foldl body (body s sl) bs)"
      and c: "concat bs = drop (i + n) xs"
      and d: "list_all (\<lambda>b. b \<noteq> [] \<and> length b \<le> n) bs"
      and e: "list_all (\<lambda>b. length b = n) (butlast bs)"
      by blast
    have a': "job_loop (\<lambda>acc slice. acc @ [slice]) xs n i acc = Some (acc @ sl # bs)"
      using True a by (subst job_loop.simps) (simp add: sl_def)
    have b': "job_loop body xs n i s = Some (foldl body s (sl # bs))"
      using True b by (subst job_loop.simps) (simp add: sl_def)
    have sl_take: "sl = take n (drop i xs)"
      by (simp add: sl_def)
    have c': "concat (sl # bs) = drop i xs"
      using c by (simp add: sl_take add.commute [of i n] flip: drop_drop)
    have sl_ok: "sl \<noteq> [] \<and> length sl \<le> n"
      using True assms by (simp add: sl_take)
    have last_case: "bs = []" if "length xs \<le> i + n"
    proof -
      have "concat bs = []" using c that by simp
      with d show ?thesis by (cases bs) (auto)
    qed
    have e': "list_all (\<lambda>b. length b = n) (butlast (sl # bs))"
    proof (cases "length xs \<le> i + n")
      case True
      then show ?thesis using last_case by simp
    next
      case False
      then have "length sl = n" by (simp add: sl_take)
      then show ?thesis using e by simp
    qed
    show ?thesis
      using a' b' c' d e' sl_ok by (intro exI [of _ "sl # bs"]) simp
  qed
qed

text \<open>
  C2. For every list of matched installations and every positive limit the loop over the
  jobs ends; the slices it produces, concatenated in order, are the original list; no
  slice is longer than the limit, and every slice but the last has exactly the limit's
  length.
\<close>

theorem job_slices_partition:
  assumes "0 < n"
  shows "\<exists>bs. job_slices xs n = Some bs \<and> concat bs = xs
            \<and> list_all (\<lambda>b. length b \<le> n) bs
            \<and> list_all (\<lambda>b. length b = n) (butlast bs)"
proof -
  from job_loop_slices [OF assms, of xs 0 "[]" "\<lambda>acc slice. acc @ [slice]" "[]"]
  obtain bs where
    a: "job_loop (\<lambda>acc slice. acc @ [slice]) xs n 0 [] = Some ([] @ bs)"
    and c: "concat bs = drop 0 xs"
    and d: "list_all (\<lambda>b. b \<noteq> [] \<and> length b \<le> n) bs"
    and e: "list_all (\<lambda>b. length b = n) (butlast bs)"
    by blast
  from d have "list_all (\<lambda>b. length b \<le> n) bs"
    by (simp add: list_all_iff)
  with a c e show ?thesis
    by (intro exI [of _ bs]) (simp add: job_slices_def)
qed

theorem job_slices_partition_witness:
  "(0::nat) < 2 \<and> job_slices [1, 2, 3, 4, 5 :: nat] 2 = Some [[1, 2], [3, 4], [5]]"
proof -
  have pos: "(0::nat) < 2" by simp
  from job_slices_partition [OF pos, of "[1, 2, 3, 4, 5 :: nat]"]
  obtain bs where "job_slices [1, 2, 3, 4, 5 :: nat] 2 = Some bs"
    by blast
  moreover have "job_slices [1, 2, 3, 4, 5 :: nat] 2 = Some [[1, 2], [3, 4], [5]]"
    by (simp add: job_slices_def job_loop.simps)
  ultimately show ?thesis by simp
qed

section \<open>Properties of the installations per job\<close>

lemma is_digit_not_sign: "is_digit c \<Longrightarrow> c \<noteq> CHR ''+'' \<and> c \<noteq> CHR ''-''"
  by (auto simp: is_digit_def)

lemma digit_val_le: "is_digit c \<Longrightarrow> digit_val c \<le> 9"
  unfolding is_digit_def digit_val_def by arith

lemma digits_value_two:
  assumes "matches_one_or_two_digits s"
  shows "digits_value s \<le> 99"
proof -
  from assms consider a where "s = [a]" "is_digit a" | a b where "s = [a, b]" "is_digit a" "is_digit b"
    by (auto simp: matches_one_or_two_digits_def length_Suc_conv numeral_2_eq_2)
  then show ?thesis
  proof cases
    case 1
    then show ?thesis using digit_val_le [of a] by (simp add: digits_value_def)
  next
    case 2
    then show ?thesis using digit_val_le [of a] digit_val_le [of b] by (simp add: digits_value_def)
  qed
qed

lemma Atoi_digits:
  assumes "matches_one_or_two_digits s"
  shows "Atoi s = (int (digits_value s), None)"
proof -
  from assms consider a where "s = [a]" "is_digit a" | a b where "s = [a, b]" "is_digit a" "is_digit b"
    by (auto simp: matches_one_or_two_digits_def length_Suc_conv numeral_2_eq_2)
  then show ?thesis
  proof cases
    case 1
    then show ?thesis
      using digit_val_le [of a] is_digit_not_sign [of a]
      by (simp add: Atoi_def ParseInt_def Let_def digits_value_def)
  next
    case 2
    then show ?thesis
      using digit_val_le [of a] digit_val_le [of b] is_digit_not_sign [of a]
      by (simp add: Atoi_def ParseInt_def Let_def digits_value_def)
  qed
qed

lemma installationPerJob_eq:
  "installationPerJob s =
     (if matches_one_or_two_digits s \<and> digits_value s \<noteq> 0 then int (digits_value s) else 20)"
  by (simp add: installationPerJob_def Atoi_digits InstallationsPerJob_def Let_def)

text \<open>
  C9. The value of the environment variable is accepted only when it is a string of one
  or two digits: \<^verbatim>\<open>0\<close>, \<^verbatim>\<open>abc\<close> and \<^verbatim>\<open>100\<close> give the default 20, and \<^verbatim>\<open>7\<close> gives 7. In general
  the limit is the decimal value of a string of one or two digits that is not zero, and 20
  otherwise, so it always lies between 1 and 99.
\<close>

theorem installations_per_job_validated:
  "installationPerJob ''0'' = 20 \<and> installationPerJob ''abc'' = 20
   \<and> installationPerJob ''100'' = 20 \<and> installationPerJob ''7'' = 7
   \<and> installationPerJob s =
       (if matches_one_or_two_digits s \<and> digits_value s \<noteq> 0 then int (digits_value s) else 20)
   \<and> 1 \<le> installationPerJob s \<and> installationPerJob s \<le> 99"
proof -
  have "installationPerJob ''0'' = 20"
    by (simp add: installationPerJob_eq matches_one_or_two_digits_def is_digit_def digits_value_def digit_val_def)
  moreover have "installationPerJob ''abc'' = 20"
    by (simp add: installationPerJob_eq matches_one_or_two_digits_def is_digit_def digits_value_def digit_val_def)
  moreover have "installationPerJob ''100'' = 20"
    by (simp add: installationPerJob_eq matches_one_or_two_digits_def is_digit_def digits_value_def digit_val_def)
  moreover have "installationPerJob ''7'' = 7"
    by (simp add: installationPerJob_eq matches_one_or_two_digits_def is_digit_def digits_value_def digit_val_def)
  moreover have "1 \<le> installationPerJob s \<and> installationPerJob s \<le> 99"
    using digits_value_two [of s] by (auto simp: installationPerJob_eq)
  ultimately show ?thesis by (simp add: installationPerJob_eq)
qed

section \<open>Properties of the tracked repositories\<close>

lemma HasSuffix_iff: "HasSuffix s t \<longleftrightarrow> (\<exists>u. s = u @ t)"
proof
  assume "HasSuffix s t"
  then have "s = take (length s - length t) s @ t"
    by (metis HasSuffix_def append_take_drop_id)
  then show "\<exists>u. s = u @ t" ..
next
  assume "\<exists>u. s = u @ t"
  then show "HasSuffix s t" by (auto simp: HasSuffix_def)
qed

lemma TrimSuffix_append: "TrimSuffix (u @ t) t = u"
  by (simp add: TrimSuffix_def HasSuffix_def)

lemma TrimSuffix_none: "\<not> HasSuffix s t \<Longrightarrow> TrimSuffix s t = s"
  by (simp add: TrimSuffix_def)

lemma TrimSuffix_cases: "TrimSuffix s t = s \<and> \<not> HasSuffix s t \<or> s = TrimSuffix s t @ t"
  by (metis HasSuffix_iff TrimSuffix_append TrimSuffix_none)

lemma component_url_cases:
  "URL g = component_url g \<or> URL g = component_url g @ ''/''
   \<or> URL g = component_url g @ ''.git'' \<or> URL g = component_url g @ ''/.git''"
proof -
  define a where "a = TrimSuffix (URL g) ''.git''"
  have k: "component_url g = TrimSuffix a ''/''"
    by (simp add: component_url_def a_def)
  from TrimSuffix_cases [of "URL g" "''.git''"]
  have 1: "a = URL g \<or> URL g = a @ ''.git''" by (auto simp: a_def)
  from TrimSuffix_cases [of a "''/''"]
  have 2: "component_url g = a \<or> a = component_url g @ ''/''" by (auto simp: k)
  from 1 2 show ?thesis by auto
qed

lemma component_url_plain:
  assumes "\<not> HasSuffix u ''/''" and "\<not> HasSuffix u ''.git''"
  shows "component_url \<lparr>URL = u, Revision = b\<rparr> = u"
    and "component_url \<lparr>URL = u @ ''/'', Revision = b\<rparr> = u"
    and "component_url \<lparr>URL = u @ ''.git'', Revision = b\<rparr> = u"
    and "component_url \<lparr>URL = u @ ''/.git'', Revision = b\<rparr> = u"
proof -
  show "component_url \<lparr>URL = u, Revision = b\<rparr> = u"
    using assms by (simp add: component_url_def TrimSuffix_none)
  have "\<not> HasSuffix (u @ ''/'') ''.git''"
    by (auto simp: HasSuffix_iff dest: arg_cong [where f = last])
  then show "component_url \<lparr>URL = u @ ''/'', Revision = b\<rparr> = u"
    by (simp add: component_url_def TrimSuffix_none TrimSuffix_append)
  show "component_url \<lparr>URL = u @ ''.git'', Revision = b\<rparr> = u"
    using assms by (simp add: component_url_def TrimSuffix_none TrimSuffix_append)
  have "TrimSuffix (u @ ''/.git'') ''.git'' = u @ ''/''"
    using TrimSuffix_append [of "u @ ''/''" "''.git''"] by simp
  then show "component_url \<lparr>URL = u @ ''/.git'', Revision = b\<rparr> = u"
    by (simp add: component_url_def TrimSuffix_append)
qed

lemma componentUrlToBranchMap_snoc:
  "componentUrlToBranchMap (items @ [c]) =
     (case Source_GitSource c of
        None \<Rightarrow> componentUrlToBranchMap items
      | Some g \<Rightarrow> (componentUrlToBranchMap items)(component_url g \<mapsto> Revision g))"
  by (cases "Source_GitSource c") (simp_all add: componentUrlToBranchMap_def add_component_def)

lemma componentUrlToBranchMap_defined:
  "componentUrlToBranchMap items k \<noteq> None \<longleftrightarrow>
     (\<exists>c \<in> set items. \<exists>g. Source_GitSource c = Some g \<and> component_url g = k)"
proof (induction items rule: rev_induct)
  case Nil
  then show ?case by (simp add: componentUrlToBranchMap_def)
next
  case (snoc c items)
  then show ?case
    by (cases "Source_GitSource c") (auto simp: componentUrlToBranchMap_snoc)
qed

lemma HasSuffix_slash: "HasSuffix u ''/'' \<longleftrightarrow> u \<noteq> [] \<and> last u = CHR ''/''"
proof
  assume "HasSuffix u ''/''"
  then obtain v where "u = v @ ''/''" by (auto simp: HasSuffix_iff)
  then show "u \<noteq> [] \<and> last u = CHR ''/''" by simp
next
  assume "u \<noteq> [] \<and> last u = CHR ''/''"
  then have "u = butlast u @ ''/''" by (metis append_butlast_last_id)
  then show "HasSuffix u ''/''" unfolding HasSuffix_iff by blast
qed

lemma TrimSuffix_slash:
  "TrimSuffix u ''/'' = (if u \<noteq> [] \<and> last u = CHR ''/'' then butlast u else u)"
proof (cases "HasSuffix u ''/''")
  case True
  then have "u \<noteq> []" "last u = CHR ''/''" by (simp_all add: HasSuffix_slash)
  then have "u = butlast u @ ''/''" by (metis append_butlast_last_id)
  then have "TrimSuffix u ''/'' = butlast u" by (metis TrimSuffix_append)
  then show ?thesis using True by (simp add: HasSuffix_slash)
next
  case False
  then have "TrimSuffix u ''/'' = u" by (rule TrimSuffix_none)
  then show ?thesis using False by (auto simp: HasSuffix_slash)
qed

lemma component_url_git:
  assumes "URL g = u @ ''.git''"
  shows "component_url g = (if u \<noteq> [] \<and> last u = CHR ''/'' then butlast u else u)"
  using assms by (simp add: component_url_def TrimSuffix_append TrimSuffix_slash)

lemma component_url_no_git:
  assumes "\<forall>u. URL g \<noteq> u @ ''.git''"
  shows "component_url g =
           (if URL g \<noteq> [] \<and> last (URL g) = CHR ''/'' then butlast (URL g) else URL g)"
proof -
  from assms have "\<not> HasSuffix (URL g) ''.git''" by (simp add: HasSuffix_iff)
  then show ?thesis by (simp add: component_url_def TrimSuffix_none TrimSuffix_slash)
qed

lemma component_url_left_over:
  "component_url \<lparr>URL = x @ ''.git/'', Revision = b\<rparr> = x @ ''.git''"
  "component_url \<lparr>URL = x @ ''//'', Revision = b\<rparr> = x @ ''/''"
  "component_url \<lparr>URL = x @ ''.git.git'', Revision = b\<rparr> = x @ ''.git''"
proof -
  have "\<forall>u. x @ ''.git/'' \<noteq> u @ ''.git''"
    by (auto dest: arg_cong [where f = last])
  from component_url_no_git [of "\<lparr>URL = x @ ''.git/'', Revision = b\<rparr>"] this
  show "component_url \<lparr>URL = x @ ''.git/'', Revision = b\<rparr> = x @ ''.git''"
    by (simp add: butlast_append)
  have "\<forall>u. x @ ''//'' \<noteq> u @ ''.git''"
    by (auto dest: arg_cong [where f = last])
  from component_url_no_git [of "\<lparr>URL = x @ ''//'', Revision = b\<rparr>"] this
  show "component_url \<lparr>URL = x @ ''//'', Revision = b\<rparr> = x @ ''/''"
    by (simp add: butlast_append)
  have "(x @ ''.git'') @ ''.git'' = x @ ''.git.git''" by simp
  from component_url_git [of "\<lparr>URL = x @ ''.git.git'', Revision = b\<rparr>" "x @ ''.git''"]
  show "component_url \<lparr>URL = x @ ''.git.git'', Revision = b\<rparr> = x @ ''.git''"
    by simp
qed

text \<open>
  C3, as the code has it. The key of a component is its URL after one \<^verbatim>\<open>.git\<close> at the end, if
  there is one, and then one slash at the end, if there is one, have been cut off: the URL
  is the key followed by nothing, by a slash, by \<^verbatim>\<open>.git\<close> or by \<^verbatim>\<open>/.git\<close>, and a URL that ends in
  neither a slash nor \<^verbatim>\<open>.git\<close> is the key of itself and of these three longer URLs. A
  repository is tracked exactly when its HTML URL is equal to the key of a component with a
  Git source, and of two components with the same key the one written last decides the
  branch. For every URL the key is fixed: when the URL is \<open>u\<close> followed by \<^verbatim>\<open>.git\<close>, the key is
  \<open>u\<close> without its last slash, if it ends in one; otherwise the key is the URL without its
  last slash, if it ends in one. Nothing is cut twice: \<^verbatim>\<open>x.git/\<close> has the key \<^verbatim>\<open>x.git\<close>, \<^verbatim>\<open>x//\<close>
  the key \<^verbatim>\<open>x/\<close> and \<^verbatim>\<open>x.git.git\<close> the key \<^verbatim>\<open>x.git\<close>.
\<close>

theorem tracked_key_trims_once:
  "(URL g = component_url g \<or> URL g = component_url g @ ''/''
      \<or> URL g = component_url g @ ''.git'' \<or> URL g = component_url g @ ''/.git'')
   \<and> (\<not> HasSuffix u ''/'' \<and> \<not> HasSuffix u ''.git'' \<longrightarrow>
        component_url \<lparr>URL = u, Revision = b\<rparr> = u
        \<and> component_url \<lparr>URL = u @ ''/'', Revision = b\<rparr> = u
        \<and> component_url \<lparr>URL = u @ ''.git'', Revision = b\<rparr> = u
        \<and> component_url \<lparr>URL = u @ ''/.git'', Revision = b\<rparr> = u)
   \<and> (html_url r \<in> dom (componentUrlToBranchMap items) \<longleftrightarrow>
        (\<exists>c \<in> set items. \<exists>g. Source_GitSource c = Some g \<and> component_url g = html_url r))
   \<and> componentUrlToBranchMap (items @ [c]) k =
       (case Source_GitSource c of
          None \<Rightarrow> componentUrlToBranchMap items k
        | Some g' \<Rightarrow>
            if component_url g' = k then Some (Revision g') else componentUrlToBranchMap items k)
   \<and> (\<forall>v. URL g = v @ ''.git'' \<longrightarrow>
          component_url g = (if v \<noteq> [] \<and> last v = CHR ''/'' then butlast v else v))
   \<and> ((\<forall>v. URL g \<noteq> v @ ''.git'') \<longrightarrow>
          component_url g =
            (if URL g \<noteq> [] \<and> last (URL g) = CHR ''/'' then butlast (URL g) else URL g))
   \<and> component_url \<lparr>URL = x @ ''.git/'', Revision = b\<rparr> = x @ ''.git''
   \<and> component_url \<lparr>URL = x @ ''//'', Revision = b\<rparr> = x @ ''/''
   \<and> component_url \<lparr>URL = x @ ''.git.git'', Revision = b\<rparr> = x @ ''.git''"
proof (intro conjI impI allI)
  show "URL g = component_url g \<or> URL g = component_url g @ ''/''
      \<or> URL g = component_url g @ ''.git'' \<or> URL g = component_url g @ ''/.git''"
    by (rule component_url_cases)
  show "html_url r \<in> dom (componentUrlToBranchMap items) \<longleftrightarrow>
        (\<exists>c \<in> set items. \<exists>g. Source_GitSource c = Some g \<and> component_url g = html_url r)"
    using componentUrlToBranchMap_defined [of items "html_url r"] by (simp add: dom_def)
  show "componentUrlToBranchMap (items @ [c]) k =
       (case Source_GitSource c of
          None \<Rightarrow> componentUrlToBranchMap items k
        | Some g' \<Rightarrow>
            if component_url g' = k then Some (Revision g') else componentUrlToBranchMap items k)"
    by (simp add: componentUrlToBranchMap_snoc split: option.splits)
  show "component_url g = (if v \<noteq> [] \<and> last v = CHR ''/'' then butlast v else v)"
    if "URL g = v @ ''.git''" for v
    using that by (rule component_url_git)
  show "component_url g =
            (if URL g \<noteq> [] \<and> last (URL g) = CHR ''/'' then butlast (URL g) else URL g)"
    if "\<forall>v. URL g \<noteq> v @ ''.git''"
    using that by (rule component_url_no_git)
qed (simp_all add: component_url_plain component_url_left_over)

theorem tracked_key_trims_once_witness:
  "\<not> HasSuffix ''https://github.com/o/r'' ''/'' \<and> \<not> HasSuffix ''https://github.com/o/r'' ''.git''
   \<and> component_url \<lparr>URL = ''https://github.com/o/r'', Revision = ''main''\<rparr> = ''https://github.com/o/r''
   \<and> component_url \<lparr>URL = ''https://github.com/o/r/'', Revision = ''main''\<rparr> = ''https://github.com/o/r''
   \<and> component_url \<lparr>URL = ''https://github.com/o/r.git'', Revision = ''main''\<rparr> = ''https://github.com/o/r''
   \<and> component_url \<lparr>URL = ''https://github.com/o/r/.git'', Revision = ''main''\<rparr> = ''https://github.com/o/r''
   \<and> component_url \<lparr>URL = ''https://github.com/o/r.git/'', Revision = ''main''\<rparr>
       = ''https://github.com/o/r.git''
   \<and> component_url \<lparr>URL = ''https://github.com/o/r//'', Revision = ''main''\<rparr>
       = ''https://github.com/o/r/''
   \<and> component_url \<lparr>URL = ''https://github.com/o/r.git.git'', Revision = ''main''\<rparr>
       = ''https://github.com/o/r.git''
   \<and> componentUrlToBranchMap
         ([\<lparr>Source_GitSource = Some \<lparr>URL = ''https://github.com/o/r'', Revision = ''main''\<rparr>\<rparr>]
          @ [\<lparr>Source_GitSource = Some \<lparr>URL = ''https://github.com/o/r.git'', Revision = ''dev''\<rparr>\<rparr>])
         ''https://github.com/o/r'' = Some ''dev''"
proof -
  have h: "\<not> HasSuffix ''https://github.com/o/r'' ''/'' \<and> \<not> HasSuffix ''https://github.com/o/r'' ''.git''"
    by (simp add: HasSuffix_def)
  note T = tracked_key_trims_once
    [where g = "\<lparr>URL = ''https://github.com/o/r.git'', Revision = ''dev''\<rparr>"
       and u = "''https://github.com/o/r''" and b = "''main''"
       and r = "\<lparr>full_name = ''o/r'', html_url = ''https://github.com/o/r''\<rparr>"
       and items = "[\<lparr>Source_GitSource = Some \<lparr>URL = ''https://github.com/o/r'', Revision = ''main''\<rparr>\<rparr>]"
       and c = "\<lparr>Source_GitSource = Some \<lparr>URL = ''https://github.com/o/r.git'', Revision = ''dev''\<rparr>\<rparr>"
       and k = "''https://github.com/o/r''" and x = "''https://github.com/o/r''"]
  note plain = T [THEN conjunct2, THEN conjunct1]
  note left = T [THEN conjunct2, THEN conjunct2, THEN conjunct2, THEN conjunct2, THEN conjunct2, THEN conjunct2, THEN conjunct1] T [THEN conjunct2, THEN conjunct2, THEN conjunct2, THEN conjunct2, THEN conjunct2, THEN conjunct2, THEN conjunct2, THEN conjunct1] T [THEN conjunct2, THEN conjunct2, THEN conjunct2, THEN conjunct2, THEN conjunct2, THEN conjunct2, THEN conjunct2, THEN conjunct2]
  note snoc = T [THEN conjunct2, THEN conjunct2, THEN conjunct2, THEN conjunct1]
  from plain [rule_format, OF h] have p: 
    "component_url \<lparr>URL = ''https://github.com/o/r'', Revision = ''main''\<rparr> = ''https://github.com/o/r''"
    "component_url \<lparr>URL = ''https://github.com/o/r/'', Revision = ''main''\<rparr> = ''https://github.com/o/r''"
    "component_url \<lparr>URL = ''https://github.com/o/r.git'', Revision = ''main''\<rparr> = ''https://github.com/o/r''"
    "component_url \<lparr>URL = ''https://github.com/o/r/.git'', Revision = ''main''\<rparr> = ''https://github.com/o/r''"
    by simp_all
  have dev: "component_url \<lparr>URL = ''https://github.com/o/r.git'', Revision = ''dev''\<rparr> = ''https://github.com/o/r''"
    using p(3) by (simp add: component_url_def)
  have last: "componentUrlToBranchMap
         ([\<lparr>Source_GitSource = Some \<lparr>URL = ''https://github.com/o/r'', Revision = ''main''\<rparr>\<rparr>]
          @ [\<lparr>Source_GitSource = Some \<lparr>URL = ''https://github.com/o/r.git'', Revision = ''dev''\<rparr>\<rparr>])
         ''https://github.com/o/r'' = Some ''dev''"
    unfolding snoc by (simp add: dev)
  from left have l:
    "component_url \<lparr>URL = ''https://github.com/o/r.git/'', Revision = ''main''\<rparr> = ''https://github.com/o/r.git''"
    "component_url \<lparr>URL = ''https://github.com/o/r//'', Revision = ''main''\<rparr> = ''https://github.com/o/r/''"
    "component_url \<lparr>URL = ''https://github.com/o/r.git.git'', Revision = ''main''\<rparr> = ''https://github.com/o/r.git''"
    by simp_all
  from h p l last show ?thesis by (intro conjI) simp_all
qed

text \<open>
  The key is not always free of a trailing \<^verbatim>\<open>.git\<close>: the slash of \<^verbatim>\<open>https://github.com/o/r.git/\<close>
  hides the \<^verbatim>\<open>.git\<close> from the first cut, and the key is \<^verbatim>\<open>https://github.com/o/r.git\<close>.
\<close>

theorem tracked_key_trims_once_counterexample:
  "\<not> (\<not> HasSuffix (component_url \<lparr>URL = ''https://github.com/o/r.git/'', Revision = ''main''\<rparr>) ''/''
      \<and> \<not> HasSuffix (component_url \<lparr>URL = ''https://github.com/o/r.git/'', Revision = ''main''\<rparr>) ''.git'')"
  by (simp add: component_url_def TrimSuffix_def HasSuffix_def)

section \<open>Properties of the decimal strings\<close>









section \<open>Properties of the generated configuration\<close>

text \<open>The three results of the loop of lines 257 to 263, each on its own.\<close>

lemma foldl_add_job_installation:
  "foldl (add_job_installation e slug) (s, c, r) xs =
     (foldl (\<lambda>m i. m(show_int (id_inst i) \<mapsto> token i)) s xs,
      foldl (\<lambda>m i. m(show_int (id_inst i) @ ''.js'' \<mapsto> generateConfigJS e slug (repositories i))) c xs,
      r @ map (\<lambda>i. ''RENOVATE_TOKEN=$TOKEN_'' @ show_int (id_inst i)
                    @ '' RENOVATE_CONFIG_FILE=/configs/'' @ show_int (id_inst i)
                    @ ''.js renovate'') xs)"
  by (induction xs arbitrary: s c r) (simp_all add: add_job_installation_def)


lemma foldl_configs_cong:
  assumes "map id_inst xs = map id_inst ys"
    and "map repositories xs = map repositories ys"
  shows "foldl (\<lambda>m i. m(show_int (id_inst i) @ ''.js'' \<mapsto> generateConfigJS e slug (repositories i))) c xs
       = foldl (\<lambda>m i. m(show_int (id_inst i) @ ''.js'' \<mapsto> generateConfigJS e slug (repositories i))) c ys"
proof -
  from assms(1) have "length xs = length ys" by (metis length_map)
  then show ?thesis using assms
    by (induction xs ys arbitrary: c rule: list_induct2) simp_all
qed

lemma add_repository_None: "m (html_url r) = None \<Longrightarrow> add_repository m acc r = acc"
  by (simp add: add_repository_def)

lemma add_repository_Some:
  "m (html_url r) = Some branch \<Longrightarrow>
   add_repository m acc r =
     acc @ [\<lparr>Repository = full_name r, BaseBranches = (if branch \<noteq> [] then [branch] else [])\<rparr>]"
  by (simp add: add_repository_def)

lemma map_match_repositories:
  "map f (match_repositories m rs) =
     List.map_filter
       (\<lambda>r. case m (html_url r) of
               None \<Rightarrow> None
             | Some branch \<Rightarrow>
                 Some (f \<lparr>Repository = full_name r,
                          BaseBranches = (if branch \<noteq> [] then [branch] else [])\<rparr>)) rs"
proof -
  have "map f (foldl (add_repository m) acc rs) =
     map f acc @ List.map_filter
       (\<lambda>r. case m (html_url r) of
               None \<Rightarrow> None
             | Some branch \<Rightarrow>
                 Some (f \<lparr>Repository = full_name r,
                          BaseBranches = (if branch \<noteq> [] then [branch] else [])\<rparr>)) rs" for acc
  proof (induction rs arbitrary: acc)
    case Nil
    then show ?case by (simp add: List.map_filter_simps)
  next
    case (Cons r rs)
    show ?case
      by (cases "m (html_url r)") (simp_all add: Cons add_repository_None add_repository_Some List.map_filter_simps)
  qed
  from this [of "[]"] show ?thesis
    by (simp add: match_repositories_def)
qed

text \<open>
  \<^verbatim>\<open>strings.Join\<close> writes the first string and then every other one after the separator; the
  lines of the template joined by line breaks are the raw string of lines 212 to 240 with
  the arguments in the place of the six \<^verbatim>\<open>%s\<close>.
\<close>

lemma Join_explicit:
  "Join xs sep = (if xs = [] then [] else hd xs @ concat (map (\<lambda>x. sep @ x) (tl xs)))"
  by (induction xs sep rule: Join.induct) simp_all

lemma template_document:
  "Join (template_lines slug array pattern) [CHR 0x0A] =
     concat
        [[CHR 0x0A],
         [CHR 0x09] @ ''module.exports = {'' @ [CHR 0x0A],
         [CHR 0x09, CHR 0x09] @ ''platform: \"github\",'' @ [CHR 0x0A],
         [CHR 0x09, CHR 0x09] @ ''username: \"'' @ slug @ ''[bot]\",'' @ [CHR 0x0A],
         [CHR 0x09, CHR 0x09] @ ''gitAuthor:\"'' @ slug @ '' <123456+'' @ slug @ ''[bot]@users.noreply.github.com>\",'' @ [CHR 0x0A],
         [CHR 0x09, CHR 0x09] @ ''onboarding: false,'' @ [CHR 0x0A],
         [CHR 0x09, CHR 0x09] @ ''requireConfig: \"ignored\",'' @ [CHR 0x0A],
         [CHR 0x09, CHR 0x09] @ ''enabledManagers: [\"tekton\"],'' @ [CHR 0x0A],
         [CHR 0x09, CHR 0x09] @ ''repositories: '' @ array @ '','' @ [CHR 0x0A],
         [CHR 0x09, CHR 0x09] @ ''tekton: {'' @ [CHR 0x0A],
         [CHR 0x09, CHR 0x09, CHR 0x09] @ ''fileMatch: [\"'' @ [CHR 0x5C] @ [CHR 0x5C] @ ''.yaml$\", \"'' @ [CHR 0x5C] @ [CHR 0x5C] @ ''.yml$\"],'' @ [CHR 0x0A],
         [CHR 0x09, CHR 0x09, CHR 0x09] @ ''includePaths: [\".tekton/**\"],'' @ [CHR 0x0A],
         [CHR 0x09, CHR 0x09, CHR 0x09] @ ''packageRules: ['' @ [CHR 0x0A],
         [CHR 0x09, CHR 0x09, CHR 0x09] @ ''  {'' @ [CHR 0x0A],
         [CHR 0x09, CHR 0x09, CHR 0x09, CHR 0x09] @ ''matchPackagePatterns: [\"*\"],'' @ [CHR 0x0A],
         [CHR 0x09, CHR 0x09, CHR 0x09, CHR 0x09] @ ''enabled: false'' @ [CHR 0x0A],
         [CHR 0x09, CHR 0x09, CHR 0x09] @ ''  },'' @ [CHR 0x0A],
         [CHR 0x09, CHR 0x09, CHR 0x09] @ ''  {'' @ [CHR 0x0A],
         [CHR 0x09, CHR 0x09, CHR 0x09, CHR 0x09] @ ''matchPackagePatterns: [\"'' @ pattern @ ''\"],'' @ [CHR 0x0A],
         [CHR 0x09, CHR 0x09, CHR 0x09, CHR 0x09] @ ''matchDepPatterns: [\"'' @ pattern @ ''\"],'' @ [CHR 0x0A],
         [CHR 0x09, CHR 0x09, CHR 0x09, CHR 0x09] @ ''groupName: \"tekton references\",'' @ [CHR 0x0A],
         [CHR 0x09, CHR 0x09, CHR 0x09, CHR 0x09] @ ''enabled: true'' @ [CHR 0x0A],
         [CHR 0x09, CHR 0x09, CHR 0x09] @ ''  }'' @ [CHR 0x0A],
         [CHR 0x09, CHR 0x09, CHR 0x09] @ '']'' @ [CHR 0x0A],
         [CHR 0x09, CHR 0x09] @ ''},'' @ [CHR 0x0A],
         [CHR 0x09, CHR 0x09] @ ''includeForks: true,'' @ [CHR 0x0A],
         [CHR 0x09, CHR 0x09] @ ''dependencyDashboard: false'' @ [CHR 0x0A],
         [CHR 0x09] @ ''}'' @ [CHR 0x0A],
         [CHR 0x09]]"
  by (simp add: template_lines_def tabs_def eval_nat_numeral)

text \<open>
  C6. The configuration generated for the matched repositories of an installation is the
  document of lines 212 to 240, byte for byte, and has, on its line \<^verbatim>\<open>repositories\<close>, the JSON
  array with one object for every repository of the installation that is tracked, in the
  directory's order and separated by commas, and nothing for the others. The object of a
  repository whose tracked revision is not empty carries \<^verbatim>\<open>baseBranches\<close> with this one
  revision; the object of a repository whose tracked revision is empty has the key
  \<^verbatim>\<open>repository\<close> only.
\<close>

theorem config_lists_matched_repositories:
  "generateConfigJS e slug (match_repositories m rs) =
     (let entries =
            List.map_filter
                 (\<lambda>r. case m (html_url r) of
                         None \<Rightarrow> None
                       | Some branch \<Rightarrow>
                           Some (''{\"repository\":'' @ json_string e (full_name r)
                                 @ (if branch = [] then []
                                    else '',\"baseBranches\":['' @ json_string e branch @ '']'')
                                 @ ''}'')) rs;
          array =
            ''['' @ (if entries = [] then []
                    else hd entries @ concat (map (\<lambda>x. '','' @ x) (tl entries))) @ '']'';
          pattern =
            (if Getenv e ''RENOVATE_PATTERN'' = [] then ''^quay.io/redhat-appstudio-tekton-catalog/''
             else Getenv e ''RENOVATE_PATTERN'')
      in concat
        [[CHR 0x0A],
         [CHR 0x09] @ ''module.exports = {'' @ [CHR 0x0A],
         [CHR 0x09, CHR 0x09] @ ''platform: \"github\",'' @ [CHR 0x0A],
         [CHR 0x09, CHR 0x09] @ ''username: \"'' @ slug @ ''[bot]\",'' @ [CHR 0x0A],
         [CHR 0x09, CHR 0x09] @ ''gitAuthor:\"'' @ slug @ '' <123456+'' @ slug @ ''[bot]@users.noreply.github.com>\",'' @ [CHR 0x0A],
         [CHR 0x09, CHR 0x09] @ ''onboarding: false,'' @ [CHR 0x0A],
         [CHR 0x09, CHR 0x09] @ ''requireConfig: \"ignored\",'' @ [CHR 0x0A],
         [CHR 0x09, CHR 0x09] @ ''enabledManagers: [\"tekton\"],'' @ [CHR 0x0A],
         [CHR 0x09, CHR 0x09] @ ''repositories: '' @ array @ '','' @ [CHR 0x0A],
         [CHR 0x09, CHR 0x09] @ ''tekton: {'' @ [CHR 0x0A],
         [CHR 0x09, CHR 0x09, CHR 0x09] @ ''fileMatch: [\"'' @ [CHR 0x5C] @ [CHR 0x5C] @ ''.yaml$\", \"'' @ [CHR 0x5C] @ [CHR 0x5C] @ ''.yml$\"],'' @ [CHR 0x0A],
         [CHR 0x09, CHR 0x09, CHR 0x09] @ ''includePaths: [\".tekton/**\"],'' @ [CHR 0x0A],
         [CHR 0x09, CHR 0x09, CHR 0x09] @ ''packageRules: ['' @ [CHR 0x0A],
         [CHR 0x09, CHR 0x09, CHR 0x09] @ ''  {'' @ [CHR 0x0A],
         [CHR 0x09, CHR 0x09, CHR 0x09, CHR 0x09] @ ''matchPackagePatterns: [\"*\"],'' @ [CHR 0x0A],
         [CHR 0x09, CHR 0x09, CHR 0x09, CHR 0x09] @ ''enabled: false'' @ [CHR 0x0A],
         [CHR 0x09, CHR 0x09, CHR 0x09] @ ''  },'' @ [CHR 0x0A],
         [CHR 0x09, CHR 0x09, CHR 0x09] @ ''  {'' @ [CHR 0x0A],
         [CHR 0x09, CHR 0x09, CHR 0x09, CHR 0x09] @ ''matchPackagePatterns: [\"'' @ pattern @ ''\"],'' @ [CHR 0x0A],
         [CHR 0x09, CHR 0x09, CHR 0x09, CHR 0x09] @ ''matchDepPatterns: [\"'' @ pattern @ ''\"],'' @ [CHR 0x0A],
         [CHR 0x09, CHR 0x09, CHR 0x09, CHR 0x09] @ ''groupName: \"tekton references\",'' @ [CHR 0x0A],
         [CHR 0x09, CHR 0x09, CHR 0x09, CHR 0x09] @ ''enabled: true'' @ [CHR 0x0A],
         [CHR 0x09, CHR 0x09, CHR 0x09] @ ''  }'' @ [CHR 0x0A],
         [CHR 0x09, CHR 0x09, CHR 0x09] @ '']'' @ [CHR 0x0A],
         [CHR 0x09, CHR 0x09] @ ''},'' @ [CHR 0x0A],
         [CHR 0x09, CHR 0x09] @ ''includeForks: true,'' @ [CHR 0x0A],
         [CHR 0x09, CHR 0x09] @ ''dependencyDashboard: false'' @ [CHR 0x0A],
         [CHR 0x09] @ ''}'' @ [CHR 0x0A],
         [CHR 0x09]])
   \<and> template_lines slug repositoriesData renovatePattern ! 8 =
       tabs 2 (''repositories: '' @ repositoriesData @ '','')"
proof
  have "map (Marshal_renovateRepository e) (match_repositories m rs) =
      List.map_filter
                 (\<lambda>r. case m (html_url r) of
                         None \<Rightarrow> None
                       | Some branch \<Rightarrow>
                           Some (''{\"repository\":'' @ json_string e (full_name r)
                                 @ (if branch = [] then []
                                    else '',\"baseBranches\":['' @ json_string e branch @ '']'')
                                 @ ''}'')) rs"
    unfolding map_match_repositories
    by (rule arg_cong [where f = "\<lambda>f. List.map_filter f rs"])
       (auto simp: Marshal_renovateRepository_def Marshal_strings_def fun_eq_iff
             split: option.splits)
  then have "generateConfigJS e slug (match_repositories m rs) =
     Join (template_lines slug
             (''['' @ Join (List.map_filter
                 (\<lambda>r. case m (html_url r) of
                         None \<Rightarrow> None
                       | Some branch \<Rightarrow>
                           Some (''{\"repository\":'' @ json_string e (full_name r)
                                 @ (if branch = [] then []
                                    else '',\"baseBranches\":['' @ json_string e branch @ '']'')
                                 @ ''}'')) rs) '','' @ '']'')
             (if Getenv e RenovateMatchPatternEnvName = [] then DefaultRenovateMatchPattern
              else Getenv e RenovateMatchPatternEnvName))
       [CHR 0x0A]"
    by (simp add: generateConfigJS_def Marshal_repositories_def Let_def)
  then show "generateConfigJS e slug (match_repositories m rs) =
     (let entries =
            List.map_filter
                 (\<lambda>r. case m (html_url r) of
                         None \<Rightarrow> None
                       | Some branch \<Rightarrow>
                           Some (''{\"repository\":'' @ json_string e (full_name r)
                                 @ (if branch = [] then []
                                    else '',\"baseBranches\":['' @ json_string e branch @ '']'')
                                 @ ''}'')) rs;
          array =
            ''['' @ (if entries = [] then []
                    else hd entries @ concat (map (\<lambda>x. '','' @ x) (tl entries))) @ '']'';
          pattern =
            (if Getenv e ''RENOVATE_PATTERN'' = [] then ''^quay.io/redhat-appstudio-tekton-catalog/''
             else Getenv e ''RENOVATE_PATTERN'')
      in concat
        [[CHR 0x0A],
         [CHR 0x09] @ ''module.exports = {'' @ [CHR 0x0A],
         [CHR 0x09, CHR 0x09] @ ''platform: \"github\",'' @ [CHR 0x0A],
         [CHR 0x09, CHR 0x09] @ ''username: \"'' @ slug @ ''[bot]\",'' @ [CHR 0x0A],
         [CHR 0x09, CHR 0x09] @ ''gitAuthor:\"'' @ slug @ '' <123456+'' @ slug @ ''[bot]@users.noreply.github.com>\",'' @ [CHR 0x0A],
         [CHR 0x09, CHR 0x09] @ ''onboarding: false,'' @ [CHR 0x0A],
         [CHR 0x09, CHR 0x09] @ ''requireConfig: \"ignored\",'' @ [CHR 0x0A],
         [CHR 0x09, CHR 0x09] @ ''enabledManagers: [\"tekton\"],'' @ [CHR 0x0A],
         [CHR 0x09, CHR 0x09] @ ''repositories: '' @ array @ '','' @ [CHR 0x0A],
         [CHR 0x09, CHR 0x09] @ ''tekton: {'' @ [CHR 0x0A],
         [CHR 0x09, CHR 0x09, CHR 0x09] @ ''fileMatch: [\"'' @ [CHR 0x5C] @ [CHR 0x5C] @ ''.yaml$\", \"'' @ [CHR 0x5C] @ [CHR 0x5C] @ ''.yml$\"],'' @ [CHR 0x0A],
         [CHR 0x09, CHR 0x09, CHR 0x09] @ ''includePaths: [\".tekton/**\"],'' @ [CHR 0x0A],
         [CHR 0x09, CHR 0x09, CHR 0x09] @ ''packageRules: ['' @ [CHR 0x0A],
         [CHR 0x09, CHR 0x09, CHR 0x09] @ ''  {'' @ [CHR 0x0A],
         [CHR 0x09, CHR 0x09, CHR 0x09, CHR 0x09] @ ''matchPackagePatterns: [\"*\"],'' @ [CHR 0x0A],
         [CHR 0x09, CHR 0x09, CHR 0x09, CHR 0x09] @ ''enabled: false'' @ [CHR 0x0A],
         [CHR 0x09, CHR 0x09, CHR 0x09] @ ''  },'' @ [CHR 0x0A],
         [CHR 0x09, CHR 0x09, CHR 0x09] @ ''  {'' @ [CHR 0x0A],
         [CHR 0x09, CHR 0x09, CHR 0x09, CHR 0x09] @ ''matchPackagePatterns: [\"'' @ pattern @ ''\"],'' @ [CHR 0x0A],
         [CHR 0x09, CHR 0x09, CHR 0x09, CHR 0x09] @ ''matchDepPatterns: [\"'' @ pattern @ ''\"],'' @ [CHR 0x0A],
         [CHR 0x09, CHR 0x09, CHR 0x09, CHR 0x09] @ ''groupName: \"tekton references\",'' @ [CHR 0x0A],
         [CHR 0x09, CHR 0x09, CHR 0x09, CHR 0x09] @ ''enabled: true'' @ [CHR 0x0A],
         [CHR 0x09, CHR 0x09, CHR 0x09] @ ''  }'' @ [CHR 0x0A],
         [CHR 0x09, CHR 0x09, CHR 0x09] @ '']'' @ [CHR 0x0A],
         [CHR 0x09, CHR 0x09] @ ''},'' @ [CHR 0x0A],
         [CHR 0x09, CHR 0x09] @ ''includeForks: true,'' @ [CHR 0x0A],
         [CHR 0x09, CHR 0x09] @ ''dependencyDashboard: false'' @ [CHR 0x0A],
         [CHR 0x09] @ ''}'' @ [CHR 0x0A],
         [CHR 0x09]])"
    unfolding Let_def template_document Join_explicit [of _ "'',''"]
      RenovateMatchPatternEnvName_def DefaultRenovateMatchPattern_def
    by (rule trans) (rule refl)
  show "template_lines slug repositoriesData renovatePattern ! 8 =
       tabs 2 (''repositories: '' @ repositoriesData @ '','')"
    by (simp add: template_lines_def)
qed

theorem config_lists_matched_repositories_witness:
  "generateConfigJS test_env ''appstudio''
     (match_repositories [''https://github.com/o/a'' \<mapsto> ''main'', ''https://github.com/o/c'' \<mapsto> []]
        [\<lparr>full_name = ''o/a'', html_url = ''https://github.com/o/a''\<rparr>,
         \<lparr>full_name = ''o/b'', html_url = ''https://github.com/o/b''\<rparr>,
         \<lparr>full_name = ''o/c'', html_url = ''https://github.com/o/c''\<rparr>])
   = concat
        [[CHR 0x0A],
         [CHR 0x09] @ ''module.exports = {'' @ [CHR 0x0A],
         [CHR 0x09, CHR 0x09] @ ''platform: \"github\",'' @ [CHR 0x0A],
         [CHR 0x09, CHR 0x09] @ ''username: \"appstudio[bot]\",'' @ [CHR 0x0A],
         [CHR 0x09, CHR 0x09] @ ''gitAuthor:\"appstudio <123456+appstudio[bot]@users.noreply.github.com>\",'' @ [CHR 0x0A],
         [CHR 0x09, CHR 0x09] @ ''onboarding: false,'' @ [CHR 0x0A],
         [CHR 0x09, CHR 0x09] @ ''requireConfig: \"ignored\",'' @ [CHR 0x0A],
         [CHR 0x09, CHR 0x09] @ ''enabledManagers: [\"tekton\"],'' @ [CHR 0x0A],
         [CHR 0x09, CHR 0x09] @ ''repositories: [{\"repository\":\"o/a\",\"baseBranches\":[\"main\"]},{\"repository\":\"o/c\"}],'' @ [CHR 0x0A],
         [CHR 0x09, CHR 0x09] @ ''tekton: {'' @ [CHR 0x0A],
         [CHR 0x09, CHR 0x09, CHR 0x09] @ ''fileMatch: [\"'' @ [CHR 0x5C] @ [CHR 0x5C] @ ''.yaml$\", \"'' @ [CHR 0x5C] @ [CHR 0x5C] @ ''.yml$\"],'' @ [CHR 0x0A],
         [CHR 0x09, CHR 0x09, CHR 0x09] @ ''includePaths: [\".tekton/**\"],'' @ [CHR 0x0A],
         [CHR 0x09, CHR 0x09, CHR 0x09] @ ''packageRules: ['' @ [CHR 0x0A],
         [CHR 0x09, CHR 0x09, CHR 0x09] @ ''  {'' @ [CHR 0x0A],
         [CHR 0x09, CHR 0x09, CHR 0x09, CHR 0x09] @ ''matchPackagePatterns: [\"*\"],'' @ [CHR 0x0A],
         [CHR 0x09, CHR 0x09, CHR 0x09, CHR 0x09] @ ''enabled: false'' @ [CHR 0x0A],
         [CHR 0x09, CHR 0x09, CHR 0x09] @ ''  },'' @ [CHR 0x0A],
         [CHR 0x09, CHR 0x09, CHR 0x09] @ ''  {'' @ [CHR 0x0A],
         [CHR 0x09, CHR 0x09, CHR 0x09, CHR 0x09] @ ''matchPackagePatterns: [\"^quay.io/redhat-appstudio-tekton-catalog/\"],'' @ [CHR 0x0A],
         [CHR 0x09, CHR 0x09, CHR 0x09, CHR 0x09] @ ''matchDepPatterns: [\"^quay.io/redhat-appstudio-tekton-catalog/\"],'' @ [CHR 0x0A],
         [CHR 0x09, CHR 0x09, CHR 0x09, CHR 0x09] @ ''groupName: \"tekton references\",'' @ [CHR 0x0A],
         [CHR 0x09, CHR 0x09, CHR 0x09, CHR 0x09] @ ''enabled: true'' @ [CHR 0x0A],
         [CHR 0x09, CHR 0x09, CHR 0x09] @ ''  }'' @ [CHR 0x0A],
         [CHR 0x09, CHR 0x09, CHR 0x09] @ '']'' @ [CHR 0x0A],
         [CHR 0x09, CHR 0x09] @ ''},'' @ [CHR 0x0A],
         [CHR 0x09, CHR 0x09] @ ''includeForks: true,'' @ [CHR 0x0A],
         [CHR 0x09, CHR 0x09] @ ''dependencyDashboard: false'' @ [CHR 0x0A],
         [CHR 0x09] @ ''}'' @ [CHR 0x0A],
         [CHR 0x09]]"
proof -
  have env: "json_string test_env = (\<lambda>s. [CHR 0x22] @ s @ [CHR 0x22])"
    "Getenv test_env ''RENOVATE_PATTERN'' = []"
    by (simp_all add: test_env_def)
  show ?thesis
    unfolding config_lists_matched_repositories [THEN conjunct1] Let_def
    by (simp add: List.map_filter_simps env)
qed

text \<open>
  C10. Two batches with the same ids and the same repositories, whatever their tokens, give
  the same data of the config map, the same commands and the same job: the tokens go to the
  data of the secret only.
\<close>

theorem config_independent_of_tokens:
  assumes "map id_inst xs = map id_inst ys"
    and "map repositories xs = map repositories ys"
  shows "fst (snd (foldl (add_job_installation e slug) (Map.empty, Map.empty, []) xs))
           = fst (snd (foldl (add_job_installation e slug) (Map.empty, Map.empty, []) ys))
       \<and> snd (snd (foldl (add_job_installation e slug) (Map.empty, Map.empty, []) xs))
           = snd (snd (foldl (add_job_installation e slug) (Map.empty, Map.empty, []) ys))
       \<and> renovate_job e name
            (snd (snd (foldl (add_job_installation e slug) (Map.empty, Map.empty, []) xs)))
           = renovate_job e name
               (snd (snd (foldl (add_job_installation e slug) (Map.empty, Map.empty, []) ys)))"
proof -
  have cmds: "map (\<lambda>i. ''RENOVATE_TOKEN=$TOKEN_'' @ show_int (id_inst i)
                    @ '' RENOVATE_CONFIG_FILE=/configs/'' @ show_int (id_inst i)
                    @ ''.js renovate'') xs
            = map (\<lambda>i. ''RENOVATE_TOKEN=$TOKEN_'' @ show_int (id_inst i)
                    @ '' RENOVATE_CONFIG_FILE=/configs/'' @ show_int (id_inst i)
                    @ ''.js renovate'') ys"
    using arg_cong [OF assms(1), of "map (\<lambda>n. ''RENOVATE_TOKEN=$TOKEN_'' @ show_int n
                    @ '' RENOVATE_CONFIG_FILE=/configs/'' @ show_int n @ ''.js renovate'')"]
    by (simp add: comp_def)
  show ?thesis
    unfolding foldl_add_job_installation
    using foldl_configs_cong [OF assms, of e slug Map.empty] cmds by simp
qed

theorem config_independent_of_tokens_witness:
  "fst (snd (foldl (add_job_installation test_env ''appstudio'') (Map.empty, Map.empty, [])
       [\<lparr>id_inst = 1, token = ''t1'',
         repositories = [\<lparr>Repository = ''o/a'', BaseBranches = [''main'']\<rparr>]\<rparr>]))
   = fst (snd (foldl (add_job_installation test_env ''appstudio'') (Map.empty, Map.empty, [])
       [\<lparr>id_inst = 1, token = ''another'',
         repositories = [\<lparr>Repository = ''o/a'', BaseBranches = [''main'']\<rparr>]\<rparr>]))
   \<and> fst (foldl (add_job_installation test_env ''appstudio'') (Map.empty, Map.empty, [])
       [\<lparr>id_inst = 1, token = ''t1'',
         repositories = [\<lparr>Repository = ''o/a'', BaseBranches = [''main'']\<rparr>]\<rparr>]) ''1'' = Some ''t1''
   \<and> fst (foldl (add_job_installation test_env ''appstudio'') (Map.empty, Map.empty, [])
       [\<lparr>id_inst = 1, token = ''another'',
         repositories = [\<lparr>Repository = ''o/a'', BaseBranches = [''main'']\<rparr>]\<rparr>]) ''1''
       = Some ''another''"
proof -
  let ?x = "\<lparr>id_inst = 1, token = ''t1'',
         repositories = [\<lparr>Repository = ''o/a'', BaseBranches = [''main'']\<rparr>]\<rparr>"
  let ?y = "\<lparr>id_inst = 1, token = ''another'',
         repositories = [\<lparr>Repository = ''o/a'', BaseBranches = [''main'']\<rparr>]\<rparr>"
  have a: "map id_inst [?x] = map id_inst [?y]" by simp
  have b: "map repositories [?x] = map repositories [?y]" by simp
  have one: "show_int 1 = ''1''"
    by (simp add: show_int_def show_nat.simps digit_char_def)
  from config_independent_of_tokens [OF a b, of test_env "''appstudio''" "[]"]
  show ?thesis
    by (simp add: add_job_installation_def one)
qed

section \<open>Properties of the job\<close>



lemma CreateRenovaterJob_nonempty:
  assumes "installations \<noteq> []"
  shows "CreateRenovaterJob e installations slug tr =
     (let acc = foldl (add_job_installation e slug) (Map.empty, Map.empty, []) installations;
          name = ''renovate-job-'' @ show_int (time_Now_Unix e tr) @ ''-'' @ getRandomString e tr 5;
          meta = \<lparr>Name = name, Namespace = buildServiceNamespaceName e, OwnerReferences = []\<rparr>
      in create_objects e \<lparr>Secret_ObjectMeta = meta, StringData = fst acc\<rparr>
           \<lparr>ConfigMap_ObjectMeta = meta, Data = fst (snd acc)\<rparr>
           (renovate_job e name (snd (snd acc))) tr)"
  using assms
  by (simp add: CreateRenovaterJob_def foldl_add_job_installation Let_def)




section \<open>Properties of the reconciliation\<close>

lemma installationPerJob_pos: "0 < nat (installationPerJob s)"
  using digits_value_two [of s] by (auto simp: installationPerJob_eq)

lemma Reconcile_secret_read:
  assumes "client_Get e (buildServiceNamespaceName e) (PipelinesAsCodeSecretName e) = Inr d
           \<or> (\<exists>err. client_Get e (buildServiceNamespaceName e) (PipelinesAsCodeSecretName e) = Inl err
                 \<and> IsNotFound err \<and> d = Map.empty)"
  shows "Reconcile e tr =
           Reconcile_with_secret e d
             (tr @ [ClientGet (buildServiceNamespaceName e) (PipelinesAsCodeSecretName e)])"
  using assms by (auto simp: Reconcile_def Let_def)

text \<open>
  C8. When the check of the credentials says that the GitHub App is not configured, be it
  on the secret as read or on the empty secret that a read answered by not-found leaves,
  the reconciliation returns the empty result and no error; all it has done is to read the
  secret and to log a line: no call of the directory, no object created.
\<close>

theorem reconcile_noop_without_app:
  assumes "client_Get e (buildServiceNamespaceName e) (PipelinesAsCodeSecretName e) = Inr d
           \<or> (\<exists>err. client_Get e (buildServiceNamespaceName e) (PipelinesAsCodeSecretName e) = Inl err
                 \<and> IsNotFound err \<and> d = Map.empty)"
    and "\<not> IsPaCApplicationConfigured e ''github'' d"
  shows "Reconcile e tr =
           Some ((\<lparr>Requeue = False, RequeueAfter = 0\<rparr>, None),
                 tr @ [ClientGet (buildServiceNamespaceName e) (PipelinesAsCodeSecretName e),
                       LogInfo ''GitHub App is not set''])"
  using assms(2) unfolding Reconcile_secret_read [OF assms(1)]
  by (simp add: Reconcile_with_secret_def)

theorem reconcile_noop_without_app_witness:
  "Reconcile (test_env\<lparr>client_Get := (\<lambda>ns name. Inl (NotFound ''secrets''))\<rparr>) []
     = Some ((\<lparr>Requeue = False, RequeueAfter = 0\<rparr>, None),
             [ClientGet ''build-service'' ''pipelines-as-code-secret'',
              LogInfo ''GitHub App is not set''])"
proof -
  let ?e = "test_env\<lparr>client_Get := (\<lambda>ns name. Inl (NotFound ''secrets''))\<rparr>"
  have a: "client_Get ?e (buildServiceNamespaceName ?e) (PipelinesAsCodeSecretName ?e) = Inr Map.empty
           \<or> (\<exists>err. client_Get ?e (buildServiceNamespaceName ?e) (PipelinesAsCodeSecretName ?e) = Inl err
                 \<and> IsNotFound err \<and> Map.empty = (Map.empty :: string \<rightharpoonup> string))"
    by simp
  have b: "\<not> IsPaCApplicationConfigured ?e ''github'' Map.empty"
    by (simp add: test_env_def)
  from reconcile_noop_without_app [OF a b, of "[]"] show ?thesis
    by (simp add: test_env_def)
qed

text \<open>
  C4, as the code has it. An error returned by the reconciliation comes from the directory
  call or from the listing of the components, and goes with the empty result: a failure of
  \<^verbatim>\<open>GetInstallations\<close> is returned as it is, and a failure of the listing is logged and
  returned as well. A failure to read the secret other than not-found is recorded and
  logged, a failure to parse the application id is logged, and both return no error.
\<close>

theorem reconcile_surfaced_errors:
  "(Reconcile e tr = Some ((r, Some err), tr') \<longrightarrow>
      r = \<lparr>Requeue = False, RequeueAfter = 0\<rparr>
      \<and> ((\<exists>appId key. GetInstallations e appId key = Inl err
                       \<and> last tr' = GetInstallationsCall appId key)
          \<or> (client_List e = Inl err \<and> last tr' = LogError err ''failed to list Components'')))
   \<and> ((client_Get e (buildServiceNamespaceName e) (PipelinesAsCodeSecretName e) = Inr d
           \<or> (\<exists>err. client_Get e (buildServiceNamespaceName e) (PipelinesAsCodeSecretName e) = Inl err
                 \<and> IsNotFound err \<and> d = Map.empty))
       \<and> IsPaCApplicationConfigured e ''github'' d
       \<and> ParseInt (secret_value d (PipelinesAsCode_githubAppIdKey e)) = (githubAppId, None)
       \<longrightarrow>
         (GetInstallations e githubAppId (secret_value d (PipelinesAsCode_githubPrivateKey e))
            = Inl err
          \<longrightarrow> Reconcile e tr =
                Some ((\<lparr>Requeue = False, RequeueAfter = 0\<rparr>, Some err),
                      tr @ [ClientGet (buildServiceNamespaceName e) (PipelinesAsCodeSecretName e),
                            GetInstallationsCall githubAppId
                              (secret_value d (PipelinesAsCode_githubPrivateKey e))]))
         \<and> (GetInstallations e githubAppId (secret_value d (PipelinesAsCode_githubPrivateKey e))
               = Inr (githubAppInstallations, slug)
             \<and> client_List e = Inl err
          \<longrightarrow> Reconcile e tr =
                Some ((\<lparr>Requeue = False, RequeueAfter = 0\<rparr>, Some err),
                      tr @ [ClientGet (buildServiceNamespaceName e) (PipelinesAsCodeSecretName e),
                            GetInstallationsCall githubAppId
                              (secret_value d (PipelinesAsCode_githubPrivateKey e)),
                            ClientList,
                            LogError err ''failed to list Components''])))
   \<and> (client_Get e (buildServiceNamespaceName e) (PipelinesAsCodeSecretName e) = Inl err
       \<and> \<not> IsNotFound err
       \<longrightarrow> Reconcile e tr =
             Some ((\<lparr>Requeue = False, RequeueAfter = 0\<rparr>, None),
                   tr @ [ClientGet (buildServiceNamespaceName e) (PipelinesAsCodeSecretName e),
                         RecorderEvent ''Warning'' ''ErrorReadingPaCSecret'' err,
                         LogError err
                           ''failed to get Pipelines as Code secret in %s namespace: %w'']))
   \<and> ((client_Get e (buildServiceNamespaceName e) (PipelinesAsCodeSecretName e) = Inr d
           \<or> (\<exists>err. client_Get e (buildServiceNamespaceName e) (PipelinesAsCodeSecretName e) = Inl err
                 \<and> IsNotFound err \<and> d = Map.empty))
       \<and> IsPaCApplicationConfigured e ''github'' d
       \<and> ParseInt (secret_value d (PipelinesAsCode_githubAppIdKey e)) = (v, Some err)
       \<longrightarrow> Reconcile e tr =
             Some ((\<lparr>Requeue = False, RequeueAfter = 0\<rparr>, None),
                   tr @ [ClientGet (buildServiceNamespaceName e) (PipelinesAsCodeSecretName e),
                         LogError err ''failed to convert %s to int: %w'']))"
proof (intro conjI impI)
  assume "Reconcile e tr = Some ((r, Some err), tr')"
  then show "r = \<lparr>Requeue = False, RequeueAfter = 0\<rparr>"
    by (auto simp: Reconcile_def Reconcile_with_secret_def Let_def
             split: sum.splits option.splits prod.splits if_splits)
next
  assume "Reconcile e tr = Some ((r, Some err), tr')"
  then show "(\<exists>appId key. GetInstallations e appId key = Inl err
                       \<and> last tr' = GetInstallationsCall appId key)
          \<or> (client_List e = Inl err \<and> last tr' = LogError err ''failed to list Components'')"
    by (auto simp: Reconcile_def Reconcile_with_secret_def Let_def
             split: sum.splits option.splits prod.splits if_splits)
next
  assume h: "(client_Get e (buildServiceNamespaceName e) (PipelinesAsCodeSecretName e) = Inr d
           \<or> (\<exists>err. client_Get e (buildServiceNamespaceName e) (PipelinesAsCodeSecretName e) = Inl err
                 \<and> IsNotFound err \<and> d = Map.empty))
       \<and> IsPaCApplicationConfigured e ''github'' d
       \<and> ParseInt (secret_value d (PipelinesAsCode_githubAppIdKey e)) = (githubAppId, None)"
    and "GetInstallations e githubAppId (secret_value d (PipelinesAsCode_githubPrivateKey e)) = Inl err"
  then show "Reconcile e tr =
                Some ((\<lparr>Requeue = False, RequeueAfter = 0\<rparr>, Some err),
                      tr @ [ClientGet (buildServiceNamespaceName e) (PipelinesAsCodeSecretName e),
                            GetInstallationsCall githubAppId
                              (secret_value d (PipelinesAsCode_githubPrivateKey e))])"
    using Reconcile_secret_read [of e d tr]
    by (simp add: Reconcile_with_secret_def Let_def)
next
  assume h: "(client_Get e (buildServiceNamespaceName e) (PipelinesAsCodeSecretName e) = Inr d
           \<or> (\<exists>err. client_Get e (buildServiceNamespaceName e) (PipelinesAsCodeSecretName e) = Inl err
                 \<and> IsNotFound err \<and> d = Map.empty))
       \<and> IsPaCApplicationConfigured e ''github'' d
       \<and> ParseInt (secret_value d (PipelinesAsCode_githubAppIdKey e)) = (githubAppId, None)"
    and "GetInstallations e githubAppId (secret_value d (PipelinesAsCode_githubPrivateKey e))
               = Inr (githubAppInstallations, slug)
             \<and> client_List e = Inl err"
  then show "Reconcile e tr =
                Some ((\<lparr>Requeue = False, RequeueAfter = 0\<rparr>, Some err),
                      tr @ [ClientGet (buildServiceNamespaceName e) (PipelinesAsCodeSecretName e),
                            GetInstallationsCall githubAppId
                              (secret_value d (PipelinesAsCode_githubPrivateKey e)),
                            ClientList,
                            LogError err ''failed to list Components''])"
    using Reconcile_secret_read [of e d tr]
    by (simp add: Reconcile_with_secret_def Let_def)
next
  assume "client_Get e (buildServiceNamespaceName e) (PipelinesAsCodeSecretName e) = Inl err
       \<and> \<not> IsNotFound err"
  then show "Reconcile e tr =
             Some ((\<lparr>Requeue = False, RequeueAfter = 0\<rparr>, None),
                   tr @ [ClientGet (buildServiceNamespaceName e) (PipelinesAsCodeSecretName e),
                         RecorderEvent ''Warning'' ''ErrorReadingPaCSecret'' err,
                         LogError err
                           ''failed to get Pipelines as Code secret in %s namespace: %w''])"
    by (simp add: Reconcile_def Let_def)
next
  assume h: "(client_Get e (buildServiceNamespaceName e) (PipelinesAsCodeSecretName e) = Inr d
           \<or> (\<exists>err. client_Get e (buildServiceNamespaceName e) (PipelinesAsCodeSecretName e) = Inl err
                 \<and> IsNotFound err \<and> d = Map.empty))
       \<and> IsPaCApplicationConfigured e ''github'' d
       \<and> ParseInt (secret_value d (PipelinesAsCode_githubAppIdKey e)) = (v, Some err)"
  then show "Reconcile e tr =
             Some ((\<lparr>Requeue = False, RequeueAfter = 0\<rparr>, None),
                   tr @ [ClientGet (buildServiceNamespaceName e) (PipelinesAsCodeSecretName e),
                         LogError err ''failed to convert %s to int: %w''])"
    using Reconcile_secret_read [of e d tr]
    by (simp add: Reconcile_with_secret_def Let_def)
qed

theorem reconcile_surfaced_errors_witness:
  "Reconcile (test_env\<lparr>GetInstallations := (\<lambda>appId key. Inl (Failure ''directory unavailable''))\<rparr>) []
     = Some ((\<lparr>Requeue = False, RequeueAfter = 0\<rparr>, Some (Failure ''directory unavailable'')),
             [ClientGet ''build-service'' ''pipelines-as-code-secret'',
              GetInstallationsCall 42 ''key''])"
proof -
  let ?e = "test_env\<lparr>GetInstallations := (\<lambda>appId key. Inl (Failure ''directory unavailable''))\<rparr>"
  let ?d = "[''github-application-id'' \<mapsto> ''42'', ''github-private-key'' \<mapsto> ''key'']"
  have a: "(client_Get ?e (buildServiceNamespaceName ?e) (PipelinesAsCodeSecretName ?e) = Inr ?d
           \<or> (\<exists>err. client_Get ?e (buildServiceNamespaceName ?e) (PipelinesAsCodeSecretName ?e) = Inl err
                 \<and> IsNotFound err \<and> ?d = Map.empty))
       \<and> IsPaCApplicationConfigured ?e ''github'' ?d
       \<and> ParseInt (secret_value ?d (PipelinesAsCode_githubAppIdKey ?e)) = (42, None)"
    by (simp add: test_env_def secret_value_def ParseInt_def is_digit_def digits_value_def
        digit_val_def)
  have b: "GetInstallations ?e 42 (secret_value ?d (PipelinesAsCode_githubPrivateKey ?e))
            = Inl (Failure ''directory unavailable'')"
    by simp
  note T = reconcile_surfaced_errors
    [where e = ?e and d = ?d and githubAppId = 42 and err = "Failure ''directory unavailable''"
       and tr = "[]", THEN conjunct2, THEN conjunct1, rule_format, OF a, THEN conjunct1,
     rule_format, OF b]
  then show ?thesis
    by (simp add: test_env_def secret_value_def)
qed

text \<open>
  A failure of the listing is not kept from the caller: line 143 returns it.
\<close>

theorem reconcile_surfaced_errors_counterexample:
  "Reconcile (test_env\<lparr>client_List := Inl (Failure ''components unavailable'')\<rparr>) []
     = Some ((\<lparr>Requeue = False, RequeueAfter = 0\<rparr>, Some (Failure ''components unavailable'')),
             [ClientGet ''build-service'' ''pipelines-as-code-secret'',
              GetInstallationsCall 42 ''key'',
              ClientList,
              LogError (Failure ''components unavailable'') ''failed to list Components''])"
  by (simp add: Reconcile_def Reconcile_with_secret_def test_env_def Let_def secret_value_def
      ParseInt_def is_digit_def digits_value_def digit_val_def)

lemma create_objects_one_secret:
  "length (filter (\<lambda>ev. case ev of ClientCreate (SecretObject _) \<Rightarrow> True | _ \<Rightarrow> False)
       (snd (create_objects e secret configMap job t)))
     = Suc (length (filter (\<lambda>ev. case ev of ClientCreate (SecretObject _) \<Rightarrow> True | _ \<Rightarrow> False) t))"
  by (auto simp: create_objects_def Create_def Update_def Let_def
           split: option.splits sum.splits)

lemma job_body_one_secret:
  assumes "installations \<noteq> []"
  shows "length (filter (\<lambda>ev. case ev of ClientCreate (SecretObject _) \<Rightarrow> True | _ \<Rightarrow> False)
       (job_body e slug t installations))
     = Suc (length (filter (\<lambda>ev. case ev of ClientCreate (SecretObject _) \<Rightarrow> True | _ \<Rightarrow> False) t))"
proof -
  obtain r t' where r: "CreateRenovaterJob e installations slug t = (r, t')"
    by (cases "CreateRenovaterJob e installations slug t")
  from CreateRenovaterJob_nonempty [OF assms, of e slug t]
  obtain secret configMap job where
    "CreateRenovaterJob e installations slug t = create_objects e secret configMap job t"
    by (auto simp: Let_def)
  with r create_objects_one_secret [of e secret configMap job t]
  have "length (filter (\<lambda>ev. case ev of ClientCreate (SecretObject _) \<Rightarrow> True | _ \<Rightarrow> False) t')
     = Suc (length (filter (\<lambda>ev. case ev of ClientCreate (SecretObject _) \<Rightarrow> True | _ \<Rightarrow> False) t))"
    by simp
  with r show ?thesis
    by (cases r) (simp_all add: job_body_def)
qed

lemma foldl_job_body_secrets:
  assumes "list_all (\<lambda>b. b \<noteq> []) jobs"
  shows "length (filter (\<lambda>ev. case ev of ClientCreate (SecretObject _) \<Rightarrow> True | _ \<Rightarrow> False)
       (foldl (job_body e slug) t jobs))
     = length (filter (\<lambda>ev. case ev of ClientCreate (SecretObject _) \<Rightarrow> True | _ \<Rightarrow> False) t)
       + length jobs"
  using assms
  by (induction jobs arbitrary: t) (simp_all add: job_body_one_secret)

text \<open>
  C7. Once the installations and the components are read, the reconciliation runs the body
  of the loop on every job in turn, whatever the jobs before it returned: its trace is the
  fold of the body over the slices of the matched installations, and it holds one attempt
  to create a secret for each job. A job that fails adds the line \<^verbatim>\<open>failed to create a job\<close>
  to the log and nothing else. Whatever the jobs return, the result asks for the next
  reconciliation after 10 hours and carries no error.
\<close>

theorem reconcile_runs_every_job:
  assumes secret: "client_Get e (buildServiceNamespaceName e) (PipelinesAsCodeSecretName e) = Inr d
           \<or> (\<exists>err. client_Get e (buildServiceNamespaceName e) (PipelinesAsCodeSecretName e) = Inl err
                 \<and> IsNotFound err \<and> d = Map.empty)"
    and app: "IsPaCApplicationConfigured e ''github'' d"
    and appId: "ParseInt (secret_value d (PipelinesAsCode_githubAppIdKey e)) = (githubAppId, None)"
    and dir: "GetInstallations e githubAppId (secret_value d (PipelinesAsCode_githubPrivateKey e))
                = Inr (githubAppInstallations, slug)"
    and list: "client_List e = Inr items"
  shows "\<exists>jobs.
           job_slices (match_installations (componentUrlToBranchMap items) githubAppInstallations)
               (nat (installationPerJob (Getenv e InstallationsPerJobEnvName))) = Some jobs
           \<and> Reconcile e tr =
               Some ((\<lparr>Requeue = False, RequeueAfter = 10 * 60 * 60 * 1000000000\<rparr>, None),
                     foldl (job_body e slug)
                       (tr @ [ClientGet (buildServiceNamespaceName e) (PipelinesAsCodeSecretName e),
                              GetInstallationsCall githubAppId
                                (secret_value d (PipelinesAsCode_githubPrivateKey e)),
                              ClientList])
                       jobs)
           \<and> length (filter (\<lambda>ev. case ev of ClientCreate (SecretObject _) \<Rightarrow> True | _ \<Rightarrow> False)
                 (foldl (job_body e slug)
                    (tr @ [ClientGet (buildServiceNamespaceName e) (PipelinesAsCodeSecretName e),
                           GetInstallationsCall githubAppId
                             (secret_value d (PipelinesAsCode_githubPrivateKey e)),
                           ClientList])
                    jobs))
               = length (filter (\<lambda>ev. case ev of ClientCreate (SecretObject _) \<Rightarrow> True | _ \<Rightarrow> False) tr)
                 + length jobs
           \<and> (\<forall>installations t err t'.
                  CreateRenovaterJob e installations slug t = (Some err, t') \<longrightarrow>
                  job_body e slug t installations = t' @ [LogError err ''failed to create a job''])
           \<and> (\<forall>installations t t'.
                  CreateRenovaterJob e installations slug t = (None, t') \<longrightarrow>
                  job_body e slug t installations = t')"
proof -
  let ?xs = "match_installations (componentUrlToBranchMap items) githubAppInstallations"
  let ?n = "nat (installationPerJob (Getenv e InstallationsPerJobEnvName))"
  let ?tr2 = "tr @ [ClientGet (buildServiceNamespaceName e) (PipelinesAsCodeSecretName e),
                    GetInstallationsCall githubAppId
                      (secret_value d (PipelinesAsCode_githubPrivateKey e)),
                    ClientList]"
  from job_loop_slices
    [where n = ?n and xs = ?xs and i = 0 and acc = "[]" and body = "job_body e slug" and s = ?tr2,
     OF installationPerJob_pos]
  obtain jobs where
    a: "job_loop (\<lambda>acc slice. acc @ [slice]) ?xs ?n 0 [] = Some ([] @ jobs)"
    and b: "job_loop (job_body e slug) ?xs ?n 0 ?tr2 = Some (foldl (job_body e slug) ?tr2 jobs)"
    and c: "list_all (\<lambda>b. b \<noteq> [] \<and> length b \<le> ?n) jobs"
    by blast
  from c have "list_all (\<lambda>b. b \<noteq> []) jobs"
    by (simp add: list_all_iff)
  then have count: "length (filter (\<lambda>ev. case ev of ClientCreate (SecretObject _) \<Rightarrow> True | _ \<Rightarrow> False)
                 (foldl (job_body e slug) ?tr2 jobs))
               = length (filter (\<lambda>ev. case ev of ClientCreate (SecretObject _) \<Rightarrow> True | _ \<Rightarrow> False) tr)
                 + length jobs"
    by (simp add: foldl_job_body_secrets)
  have "Reconcile e tr =
      Some ((\<lparr>Requeue = False, RequeueAfter = 10 * 60 * 60 * 1000000000\<rparr>, None),
            foldl (job_body e slug) ?tr2 jobs)"
    unfolding Reconcile_secret_read [OF secret]
    using app appId dir list b
    by (simp add: Reconcile_with_secret_def Let_def NextReconcile_def Hour_def Second_def)
  moreover have "job_slices ?xs ?n = Some jobs"
    using a by (simp add: job_slices_def)
  moreover have "\<forall>installations t err t'.
                  CreateRenovaterJob e installations slug t = (Some err, t') \<longrightarrow>
                  job_body e slug t installations = t' @ [LogError err ''failed to create a job'']"
    by (simp add: job_body_def)
  moreover have "\<forall>installations t t'.
                  CreateRenovaterJob e installations slug t = (None, t') \<longrightarrow>
                  job_body e slug t installations = t'"
    by (simp add: job_body_def)
  ultimately show ?thesis using count by blast
qed

lemma test_matched:
  "match_installations (componentUrlToBranchMap test_components) test_installations =
     [\<lparr>id_inst = 1, token = ''t1'',
        repositories = [\<lparr>Repository = ''o/a'', BaseBranches = [''main'']\<rparr>]\<rparr>,
      \<lparr>id_inst = 2, token = ''t2'',
        repositories = [\<lparr>Repository = ''o/c'', BaseBranches = []\<rparr>]\<rparr>,
      \<lparr>id_inst = 3, token = ''t3'',
        repositories = [\<lparr>Repository = ''o/e'', BaseBranches = [''dev'']\<rparr>]\<rparr>]"
  by (simp add: match_installations_def add_installation_def match_repositories_def
      add_repository_def componentUrlToBranchMap_def add_component_def component_url_def
      TrimSuffix_def HasSuffix_def test_components_def test_installations_def Let_def)

theorem reconcile_runs_every_job_witness:
  "map_option fst
     (Reconcile (test_env\<lparr>client_Create :=
        (\<lambda>tr obj. if length tr = 3 then Some (Failure ''quota'') else None)\<rparr>) [])
     = Some (\<lparr>Requeue = False, RequeueAfter = 36000000000000\<rparr>, None)
   \<and> map_option
       (\<lambda>x. length (filter (\<lambda>ev. case ev of ClientCreate (SecretObject _) \<Rightarrow> True | _ \<Rightarrow> False)
                      (snd x)))
       (Reconcile (test_env\<lparr>client_Create :=
          (\<lambda>tr obj. if length tr = 3 then Some (Failure ''quota'') else None)\<rparr>) [])
     = Some 2
   \<and> map_option
       (\<lambda>x. filter (\<lambda>ev. case ev of LogError _ _ \<Rightarrow> True | ClientCreate (JobObject _) \<Rightarrow> True
                             | _ \<Rightarrow> False) (snd x))
       (Reconcile (test_env\<lparr>client_Create :=
          (\<lambda>tr obj. if length tr = 3 then Some (Failure ''quota'') else None)\<rparr>) [])
     = Some [LogError (Failure ''quota'') ''failed to create a job'',
             ClientCreate (JobObject (renovate_job test_env ''renovate-job-1700000000-abcde''
               [''RENOVATE_TOKEN=$TOKEN_3 RENOVATE_CONFIG_FILE=/configs/3.js renovate'']))]"
proof -
  let ?e = "test_env\<lparr>client_Create :=
        (\<lambda>tr obj. if length tr = 3 then Some (Failure ''quota'') else None)\<rparr>"
  let ?d = "[''github-application-id'' \<mapsto> ''42'', ''github-private-key'' \<mapsto> ''key'']"
  let ?i1 = "\<lparr>id_inst = 1, token = ''t1'',
        repositories = [\<lparr>Repository = ''o/a'', BaseBranches = [''main'']\<rparr>]\<rparr>"
  let ?i2 = "\<lparr>id_inst = 2, token = ''t2'',
        repositories = [\<lparr>Repository = ''o/c'', BaseBranches = []\<rparr>]\<rparr>"
  let ?i3 = "\<lparr>id_inst = 3, token = ''t3'',
        repositories = [\<lparr>Repository = ''o/e'', BaseBranches = [''dev'']\<rparr>]\<rparr>"
  have secret: "client_Get ?e (buildServiceNamespaceName ?e) (PipelinesAsCodeSecretName ?e) = Inr ?d
           \<or> (\<exists>err. client_Get ?e (buildServiceNamespaceName ?e) (PipelinesAsCodeSecretName ?e) = Inl err
                 \<and> IsNotFound err \<and> ?d = Map.empty)"
    by (simp add: test_env_def)
  have app: "IsPaCApplicationConfigured ?e ''github'' ?d"
    by (simp add: test_env_def)
  have appId: "ParseInt (secret_value ?d (PipelinesAsCode_githubAppIdKey ?e)) = (42, None)"
    by (simp add: test_env_def secret_value_def ParseInt_def is_digit_def digits_value_def
        digit_val_def)
  have dir: "GetInstallations ?e 42 (secret_value ?d (PipelinesAsCode_githubPrivateKey ?e))
               = Inr (test_installations, ''appstudio'')"
    by (simp add: test_env_def)
  have list: "client_List ?e = Inr test_components"
    by (simp add: test_env_def)
  have n: "nat (installationPerJob (Getenv ?e InstallationsPerJobEnvName)) = 2"
    by (simp add: test_env_def InstallationsPerJobEnvName_def installationPerJob_eq
        matches_one_or_two_digits_def is_digit_def digits_value_def digit_val_def)
  have n': "nat (installationPerJob (Getenv test_env InstallationsPerJobEnvName)) = 2"
    using n by simp
  have slices: "job_slices [?i1, ?i2, ?i3] 2 = Some [[?i1, ?i2], [?i3]]"
    by (simp add: job_slices_def job_loop.simps)
  from reconcile_runs_every_job [OF secret app appId dir list, of "[]"]
  obtain jobs where
    j: "job_slices (match_installations (componentUrlToBranchMap test_components) test_installations)
          (nat (installationPerJob (Getenv ?e InstallationsPerJobEnvName))) = Some jobs"
    and r: "Reconcile ?e [] =
               Some ((\<lparr>Requeue = False, RequeueAfter = 10 * 60 * 60 * 1000000000\<rparr>, None),
                     foldl (job_body ?e ''appstudio'')
                       ([] @ [ClientGet (buildServiceNamespaceName ?e) (PipelinesAsCodeSecretName ?e),
                              GetInstallationsCall 42
                                (secret_value ?d (PipelinesAsCode_githubPrivateKey ?e)),
                              ClientList])
                       jobs)"
    and c: "length (filter (\<lambda>ev. case ev of ClientCreate (SecretObject _) \<Rightarrow> True | _ \<Rightarrow> False)
                 (foldl (job_body ?e ''appstudio'')
                    ([] @ [ClientGet (buildServiceNamespaceName ?e) (PipelinesAsCodeSecretName ?e),
                           GetInstallationsCall 42
                             (secret_value ?d (PipelinesAsCode_githubPrivateKey ?e)),
                           ClientList])
                    jobs))
               = length (filter (\<lambda>ev. case ev of ClientCreate (SecretObject _) \<Rightarrow> True | _ \<Rightarrow> False) [])
                 + length jobs"
    by blast
  from j have jobs: "jobs = [[?i1, ?i2], [?i3]]"
    by (simp add: test_matched n' slices)
  have first: "map_option fst (Reconcile ?e []) =
      Some (\<lparr>Requeue = False, RequeueAfter = 36000000000000\<rparr>, None)"
    by (simp add: r)
  have second: "map_option
       (\<lambda>x. length (filter (\<lambda>ev. case ev of ClientCreate (SecretObject _) \<Rightarrow> True | _ \<Rightarrow> False)
                      (snd x))) (Reconcile ?e []) = Some 2"
    using c by (simp add: r jobs)
  have name: "show_int 1700000000 = ''1700000000''"
    by (simp add: show_int_def show_nat.simps digit_char_def)
  have three: "show_int 3 = ''3''"
    by (simp add: show_int_def show_nat.simps digit_char_def)
  have third: "map_option
       (\<lambda>x. filter (\<lambda>ev. case ev of LogError _ _ \<Rightarrow> True | ClientCreate (JobObject _) \<Rightarrow> True
                             | _ \<Rightarrow> False) (snd x)) (Reconcile ?e [])
     = Some [LogError (Failure ''quota'') ''failed to create a job'',
             ClientCreate (JobObject (renovate_job test_env ''renovate-job-1700000000-abcde''
               [''RENOVATE_TOKEN=$TOKEN_3 RENOVATE_CONFIG_FILE=/configs/3.js renovate'']))]"
    unfolding r jobs
    by (simp add: job_body_def CreateRenovaterJob_nonempty foldl_add_job_installation Let_def
        create_objects_def Create_def Update_def test_env_def name three renovate_job_def
        add_job_installation_def)
  from first second third show ?thesis by (intro conjI)
qed

end
